theory Spec2Isabelle
  imports Main "HOL-Library.Word"
begin

section \<open>Values of the JavaScript runtime and of the MongoDB driver\<close>

text \<open>
  The repository holds two implementations of one registry backend over the same MongoDB
  collections (users, packages, versions, and the GridFS bucket fs): the Koa one
  (src/src/middlewares/auth.ts, which carries the middleware and both controllers) and the
  Hono one (src/backend/src/controllers, src/unnamed/part_002 for its middleware). Both are
  embedded here, function by function, with the prefixes \<open>koa_\<close> and \<open>hono_\<close>.

  An ObjectId is represented by its 24 character lower case hexadecimal rendering
  (what \<open>toHexString()\<close> returns). A field that holds a user id may hold, at run time,
  either an ObjectId object or a plain string: the Hono controllers build
  \<open>new ObjectId(header)\<close>, the Koa middleware stores the header string itself in
  \<open>ctx.state.userId\<close> and the controllers only assert the type (\<open>as ObjectId\<close>
  has no effect at run time). \<open>idval\<close> keeps the two apart, as BSON does.
\<close>

type_synonym byte = "8 word"
type_synonym buffer = "byte list"
type_synonym objectId = string

datatype idval = Oid objectId | Str string

datatype exn = BSONError | TypeError | DuplicateKeyError | FileNotFound

definition toLowerChar :: "char \<Rightarrow> char" where
  "toLowerChar c =
     (let n = (of_char c :: nat) in if 65 \<le> n \<and> n \<le> 90 then char_of (n + 32) else c)"

definition toLowerCase :: "string \<Rightarrow> string" where
  "toLowerCase s = map toLowerChar s"

definition isHexDigit :: "char \<Rightarrow> bool" where
  "isHexDigit c = (c \<in> set ''0123456789abcdefABCDEF'')"

definition isValidHex :: "string \<Rightarrow> bool" where
  "isValidHex s = (length s = 24 \<and> list_all isHexDigit s)"

text \<open>\<open>new ObjectId(s)\<close> for a string: the driver accepts a 24 character hexadecimal
  string and throws a BSONError otherwise.\<close>

definition newObjectId :: "string \<Rightarrow> exn + objectId" where
  "newObjectId s = (if isValidHex s then Inr (toLowerCase s) else Inl BSONError)"

text \<open>\<open>a.equals(b)\<close>: a string has no such method, so the call throws a TypeError;
  an ObjectId compares its bytes with another ObjectId, and its hexadecimal rendering with
  the lower-cased argument when that is a string.\<close>

fun equals_method :: "idval \<Rightarrow> idval \<Rightarrow> exn + bool" where
  "equals_method (Str s) other = Inl TypeError"
| "equals_method (Oid h) (Oid h') = Inr (h = h')"
| "equals_method (Oid h) (Str s) = Inr (toLowerCase s = h)"

text \<open>\<open>a !== b\<close>: an object is never strictly equal to a string; two strings are
  compared by content.\<close>

definition strict_neq :: "idval \<Rightarrow> idval \<Rightarrow> bool" where
  "strict_neq a b = (a \<noteq> b)"

text \<open>\<open>!x\<close> for a header or a form field that is a string when present: true when it is
  absent or the empty string.\<close>

fun falsy :: "string option \<Rightarrow> bool" where
  "falsy None = True"
| "falsy (Some s) = (s = [])"

text \<open>\<open>crypto.randomBytes(n).toString('hex')\<close>, the random source being a stream of
  bytes.\<close>

definition hexDigit :: "nat \<Rightarrow> char" where
  "hexDigit n = ''0123456789abcdef'' ! (n mod 16)"

definition toHex :: "buffer \<Rightarrow> string" where
  "toHex b = concat (map (\<lambda>x. [hexDigit (unat x div 16), hexDigit (unat x mod 16)]) b)"

definition randomBytes :: "(nat \<Rightarrow> byte) \<Rightarrow> nat \<Rightarrow> buffer" where
  "randomBytes rnd n = map rnd [0..<n]"

definition generateApiKey :: "(nat \<Rightarrow> byte) \<Rightarrow> string" where
  "generateApiKey rnd = toHex (randomBytes rnd 32)"

text \<open>\<open>path.basename(p)\<close> on a POSIX path: trailing separators are dropped, then the
  part after the last separator is taken.\<close>

definition basename :: "string \<Rightarrow> string" where
  "basename p =
     rev (takeWhile (\<lambda>c. c \<noteq> CHR ''/'') (dropWhile (\<lambda>c. c = CHR ''/'') (rev p)))"

section \<open>The document store and the blob store\<close>

record user_doc =
  u_id :: objectId
  u_username :: string
  u_password :: string
  u_apiKey :: string
  u_createdAt :: "nat option"
  u_lastLogin :: "nat option"

record package_doc =
  p_id :: objectId
  p_name :: string
  p_description :: string
  p_owner :: idval
  p_createdAt :: nat
  p_updatedAt :: nat
  p_downloads :: "nat option"

record version_doc =
  v_id :: objectId
  v_package :: objectId
  v_version :: string
  v_description :: string
  v_sha256 :: "string option"
  v_fileSize :: nat
  v_filePath :: string
  v_filename :: string
  v_publishedBy :: idval
  v_publishedAt :: nat
  v_downloads :: "nat option"

record gridfs_file =
  f_id :: objectId
  f_filename :: string
  f_metadata :: "string \<times> string"
  f_data :: buffer

text \<open>A collection is the list of its documents in natural (insertion) order; a field a
  document does not have is \<open>None\<close>. Dates are milliseconds as naturals.\<close>

record db =
  users :: "user_doc list"
  packages :: "package_doc list"
  versions :: "version_doc list"
  fs_files :: "gridfs_file list"

text \<open>What a call reads from outside the store: the ids the driver generates for the
  documents it inserts, the values of the successive \<open>new Date()\<close>, the random source, and
  the library functions (password hashing and checking, SHA-256 in hexadecimal).\<close>

record env =
  newUserId :: objectId
  newPackageId :: objectId
  newFileId :: objectId
  newVersionId :: objectId
  createdAtNow :: nat
  updatedAtNow :: nat
  publishedAtNow :: nat
  lastLoginNow :: nat
  random :: "nat \<Rightarrow> byte"
  hashPassword :: "string \<Rightarrow> string"
  verifyPassword :: "string \<Rightarrow> string \<Rightarrow> bool"
  sha256hex :: "buffer \<Rightarrow> string"

text \<open>\<open>insertOne\<close>: the collection's unique index on \<open>_id\<close> rejects a document whose
  id is taken (the one store failure that is modelled); otherwise the document is
  appended.\<close>

definition insertOne :: "('a \<Rightarrow> objectId) \<Rightarrow> 'a list \<Rightarrow> 'a \<Rightarrow> exn + 'a list" where
  "insertOne key coll doc =
     (if key doc \<in> key ` set coll then Inl DuplicateKeyError else Inr (coll @ [doc]))"

text \<open>\<open>findOne(filter)\<close> is \<^const>\<open>List.find\<close>: the first document, in natural order,
  that matches. \<open>deleteOne\<close> removes that document, \<open>deleteMany\<close> every match.\<close>

fun deleteOne :: "('a \<Rightarrow> bool) \<Rightarrow> 'a list \<Rightarrow> 'a list" where
  "deleteOne P [] = []"
| "deleteOne P (x # xs) = (if P x then xs else x # deleteOne P xs)"

definition deleteMany :: "('a \<Rightarrow> bool) \<Rightarrow> 'a list \<Rightarrow> 'a list" where
  "deleteMany P xs = filter (\<lambda>x. \<not> P x) xs"

text \<open>\<open>saveFileToGridFS\<close> (src/unnamed/part_003, lines 11-35): the buffer is piped into
  an upload stream; on \<open>finish\<close> the promise resolves to the id of the new file, on
  \<open>error\<close> it rejects.\<close>

definition saveFileToGridFS ::
  "env \<Rightarrow> gridfs_file list \<Rightarrow> buffer \<Rightarrow> string \<Rightarrow> string \<times> string
     \<Rightarrow> exn + (objectId \<times> gridfs_file list)" where
  "saveFileToGridFS e bucket buf filename metadata =
     (case insertOne f_id bucket
             \<lparr>f_id = newFileId e, f_filename = filename, f_metadata = metadata, f_data = buf\<rparr> of
        Inl x \<Rightarrow> Inl x
      | Inr fs \<Rightarrow> Inr (newFileId e, fs))"

text \<open>\<open>bucket.openDownloadStream(id)\<close>, read to its end: the bytes of the file, or the
  stream's FileNotFound error.\<close>

definition openDownloadStream :: "gridfs_file list \<Rightarrow> objectId \<Rightarrow> exn + buffer" where
  "openDownloadStream bucket fid =
     (case List.find (\<lambda>f. f_id f = fid) bucket of
        None \<Rightarrow> Inl FileNotFound
      | Some f \<Rightarrow> Inr (f_data f))"

section \<open>Responses\<close>

text \<open>The texts of the responses, by the place that sends them (the source writes them in
  Chinese).\<close>

datatype msg =
    MissingApiKey | MissingUserId | InvalidUser | WrongApiKey
  | Unauthenticated
  | MissingFields | FileMissingOrMalformed | FileNotUploaded
  | NoPermissionToPublish | VersionExists
  | PackageNotFound | NoPermissionToDelete | PackageDeleted
  | VersionNotFound | NoVersionsYet
  | MissingUsernameOrPassword | UsernameExists | UserNotFound | WrongPassword
  | UserDeleted | AccountDeleted

datatype body =
    ErrorBody msg
  | ExnBody exn
  | MessageBody msg
  | PublishedBody objectId
  | BufferBody string buffer
  | StreamBody string "exn + buffer"
  | VersionBody version_doc
  | CredentialsBody objectId string

datatype response = Resp (status: nat) (body: body)

section \<open>The authentication middleware\<close>

text \<open>\<open>authenticate(db)\<close> (src/src/middlewares/auth.ts lines 5-40 and
  src/unnamed/part_002): the same checks in both; on success the header string is what is
  handed on (\<open>ctx.state.userId\<close>, \<open>c.env.userId\<close>). \<open>new ObjectId\<close> is called
  outside any try block, so its error reaches the framework, which answers 500.\<close>

datatype auth_result = Reject response | Pass string

definition authenticate :: "db \<Rightarrow> string option \<Rightarrow> string option \<Rightarrow> auth_result" where
  "authenticate d apiKey userId =
     (case apiKey of
        None \<Rightarrow> Reject (Resp 401 (ErrorBody MissingApiKey))
      | Some k \<Rightarrow>
          if k = [] then Reject (Resp 401 (ErrorBody MissingApiKey))
          else (case userId of
             None \<Rightarrow> Reject (Resp 401 (ErrorBody MissingUserId))
           | Some uid \<Rightarrow>
               if uid = [] then Reject (Resp 401 (ErrorBody MissingUserId))
               else (case newObjectId uid of
                  Inl x \<Rightarrow> Reject (Resp 500 (ExnBody x))
                | Inr oid \<Rightarrow>
                    (case List.find (\<lambda>u. u_id u = oid) (users d) of
                       None \<Rightarrow> Reject (Resp 401 (ErrorBody InvalidUser))
                     | Some user \<Rightarrow>
                         if u_apiKey user \<noteq> k then Reject (Resp 401 (ErrorBody WrongApiKey))
                         else Pass uid))))"

section \<open>The Hono package controller\<close>

text \<open>src/backend/src/controllers/packageController.ts. A form field read with
  \<open>formData.get\<close> is absent, a string or a File; the three text fields are taken as
  absent or a string.\<close>

datatype form_entry = NoEntry | TextEntry string | FileEntry string buffer

text \<open>Lines 49-66 of \<open>publish\<close>: the package is looked up by name; an existing one must
  be owned by the caller, a missing one is inserted with the caller as owner.\<close>

definition hono_resolve_package ::
  "env \<Rightarrow> db \<Rightarrow> objectId \<Rightarrow> string \<Rightarrow> string \<Rightarrow> (response \<times> db) + (objectId \<times> db)" where
  "hono_resolve_package e d userId packageName description =
     (case List.find (\<lambda>p. p_name p = packageName) (packages d) of
        Some pkg \<Rightarrow>
          (case equals_method (p_owner pkg) (Oid userId) of
             Inl x \<Rightarrow> Inl (Resp 500 (ExnBody x), d)
           | Inr same \<Rightarrow>
               if same then Inr (p_id pkg, d)
               else Inl (Resp 403 (ErrorBody NoPermissionToPublish), d))
      | None \<Rightarrow>
          (case insertOne p_id (packages d)
                  \<lparr>p_id = newPackageId e, p_name = packageName, p_description = description,
                   p_owner = Oid userId, p_createdAt = createdAtNow e,
                   p_updatedAt = updatedAtNow e, p_downloads = None\<rparr> of
             Inl x \<Rightarrow> Inl (Resp 500 (ExnBody x), d)
           | Inr ps \<Rightarrow> Inr (newPackageId e, d\<lparr>packages := ps\<rparr>)))"

text \<open>Lines 68-98 of \<open>publish\<close>: the version check, the upload to GridFS, then the insert
  of the version document.\<close>

definition hono_store_version ::
  "env \<Rightarrow> db \<Rightarrow> objectId \<Rightarrow> objectId \<Rightarrow> string \<Rightarrow> string \<Rightarrow> string \<Rightarrow> string \<Rightarrow> buffer
     \<Rightarrow> response \<times> db" where
  "hono_store_version e d userId pkgId packageName version description fileName fileBuffer =
     (case List.find (\<lambda>v. v_package v = pkgId \<and> v_version v = version) (versions d) of
        Some existingVersion \<Rightarrow> (Resp 400 (ErrorBody VersionExists), d)
      | None \<Rightarrow>
          (case saveFileToGridFS e (fs_files d) fileBuffer fileName (packageName, version) of
             Inl x \<Rightarrow> (Resp 500 (ExnBody x), d)
           | Inr (fileId, fs) \<Rightarrow>
               (case insertOne v_id (versions d)
                       \<lparr>v_id = newVersionId e, v_package = pkgId, v_version = version,
                        v_description = description, v_sha256 = None,
                        v_fileSize = length fileBuffer, v_filePath = fileId,
                        v_filename = fileName, v_publishedBy = Oid userId,
                        v_publishedAt = publishedAtNow e, v_downloads = None\<rparr> of
                  Inl x \<Rightarrow> (Resp 500 (ExnBody x), d\<lparr>fs_files := fs\<rparr>)
                | Inr vs \<Rightarrow>
                    (Resp 200 (PublishedBody (newVersionId e)),
                     d\<lparr>fs_files := fs, versions := vs\<rparr>))))"

text \<open>\<open>publish\<close> (lines 21-102), from the header \<open>x-user-id\<close> and the form fields. A
  text field fails the test of line 37 when it is absent or empty; the file field fails the
  test of line 41 when it is absent or not a File.\<close>

definition hono_publish ::
  "env \<Rightarrow> db \<Rightarrow> string option \<Rightarrow> string option \<Rightarrow> string option \<Rightarrow> string option
     \<Rightarrow> form_entry \<Rightarrow> response \<times> db" where
  "hono_publish e d userIdHeader packageName version description fileField =
     (case userIdHeader of
        None \<Rightarrow> (Resp 401 (ErrorBody Unauthenticated), d)
      | Some h \<Rightarrow>
          if h = [] then (Resp 401 (ErrorBody Unauthenticated), d)
          else (case newObjectId h of
             Inl x \<Rightarrow> (Resp 500 (ExnBody x), d)
           | Inr userId \<Rightarrow>
               (case packageName of
                  None \<Rightarrow> (Resp 400 (ErrorBody MissingFields), d)
                | Some pn \<Rightarrow>
                (case version of
                  None \<Rightarrow> (Resp 400 (ErrorBody MissingFields), d)
                | Some ver \<Rightarrow>
                (case description of
                  None \<Rightarrow> (Resp 400 (ErrorBody MissingFields), d)
                | Some des \<Rightarrow>
                    if pn = [] \<or> ver = [] \<or> des = []
                    then (Resp 400 (ErrorBody MissingFields), d)
                    else (case fileField of
                       NoEntry \<Rightarrow> (Resp 400 (ErrorBody FileMissingOrMalformed), d)
                     | TextEntry t \<Rightarrow> (Resp 400 (ErrorBody FileMissingOrMalformed), d)
                     | FileEntry fileName fileBuffer \<Rightarrow>
                         (case hono_resolve_package e d userId pn des of
                            Inl r \<Rightarrow> r
                          | Inr (pkgId, d1) \<Rightarrow>
                              hono_store_version e d1 userId pkgId pn ver des
                                fileName fileBuffer)))))))"

text \<open>\<open>deletePackage\<close> (lines 108-129).\<close>

definition hono_deletePackage :: "db \<Rightarrow> string option \<Rightarrow> string \<Rightarrow> response \<times> db" where
  "hono_deletePackage d userIdHeader packageName =
     (case userIdHeader of
        None \<Rightarrow> (Resp 401 (ErrorBody Unauthenticated), d)
      | Some h \<Rightarrow>
          if h = [] then (Resp 401 (ErrorBody Unauthenticated), d)
          else (case newObjectId h of
             Inl x \<Rightarrow> (Resp 500 (ExnBody x), d)
           | Inr userId \<Rightarrow>
               (case List.find (\<lambda>p. p_name p = packageName) (packages d) of
                  None \<Rightarrow> (Resp 404 (ErrorBody PackageNotFound), d)
                | Some pkg \<Rightarrow>
                    (case equals_method (p_owner pkg) (Oid userId) of
                       Inl x \<Rightarrow> (Resp 500 (ExnBody x), d)
                     | Inr same \<Rightarrow>
                         if same
                         then (Resp 200 (MessageBody PackageDeleted),
                               d\<lparr>packages := deleteOne (\<lambda>p. p_id p = p_id pkg) (packages d)\<rparr>)
                         else (Resp 403 (ErrorBody NoPermissionToDelete), d)))))"

text \<open>\<open>download\<close> (lines 135-169): the whole stream is read into a buffer inside the try
  block, so a stream error is answered 500.\<close>

definition hono_download :: "db \<Rightarrow> string \<Rightarrow> string \<Rightarrow> response \<times> db" where
  "hono_download d packageName version =
     (case List.find (\<lambda>p. p_name p = packageName) (packages d) of
        None \<Rightarrow> (Resp 404 (ErrorBody PackageNotFound), d)
      | Some pkg \<Rightarrow>
          (case List.find (\<lambda>v. v_package v = p_id pkg \<and> v_version v = version) (versions d) of
             None \<Rightarrow> (Resp 404 (ErrorBody VersionNotFound), d)
           | Some versionInfo \<Rightarrow>
               (case newObjectId (v_filePath versionInfo) of
                  Inl x \<Rightarrow> (Resp 500 (ExnBody x), d)
                | Inr fileId \<Rightarrow>
                    (case openDownloadStream (fs_files d) fileId of
                       Inl x \<Rightarrow> (Resp 500 (ExnBody x), d)
                     | Inr fileBuffer \<Rightarrow>
                         (Resp 200 (BufferBody (v_filename versionInfo) fileBuffer), d)))))"

text \<open>\<open>getLatestVersion\<close> (Hono lines 192-213, Koa lines 251-274 of
  src/src/middlewares/auth.ts: the same code). \<open>sort({publishedAt: -1})\<close> is a sort by
  descending date; documents of equal date keep their natural order here (the store promises
  no order among them).\<close>

definition sortByPublishedAtDesc :: "version_doc list \<Rightarrow> version_doc list" where
  "sortByPublishedAtDesc vs = sort_key (\<lambda>v. - int (v_publishedAt v)) vs"

definition getLatestVersion :: "db \<Rightarrow> string \<Rightarrow> response \<times> db" where
  "getLatestVersion d packageName =
     (case List.find (\<lambda>p. p_name p = packageName) (packages d) of
        None \<Rightarrow> (Resp 404 (ErrorBody PackageNotFound), d)
      | Some pkg \<Rightarrow>
          (case take 1 (sortByPublishedAtDesc
                          (filter (\<lambda>v. v_package v = p_id pkg) (versions d))) of
             [] \<Rightarrow> (Resp 200 (MessageBody NoVersionsYet), d)
           | latest # rest \<Rightarrow> (Resp 200 (VersionBody latest), d)))"

text \<open>\<open>searchPackages\<close> (Hono lines 175-186, Koa lines 234-245): the packages whose
  name matches the query as a case-insensitive regular expression. The regular expression
  engine of the store is the parameter \<open>matches\<close>.\<close>

definition searchPackages ::
  "(string \<Rightarrow> string \<Rightarrow> bool) \<Rightarrow> db \<Rightarrow> string \<Rightarrow> package_doc list" where
  "searchPackages matches d query = filter (\<lambda>p. matches query (p_name p)) (packages d)"

section \<open>The Koa package controller\<close>

text \<open>src/src/middlewares/auth.ts, lines 59-275. \<open>userId\<close> is \<open>ctx.state.userId\<close>, the
  header string the middleware stored; \<open>request.files?.file\<close> is undefined, an array, or
  one uploaded file with the path of its temporary copy (whose content \<open>readFile\<close>
  returns). The body fields are strings, as the source declares them.\<close>

datatype koa_file = NoFile | FileArray | OneFile string buffer

text \<open>Lines 100-120 of \<open>publish\<close>.\<close>

definition koa_resolve_package ::
  "env \<Rightarrow> db \<Rightarrow> string \<Rightarrow> string \<Rightarrow> string \<Rightarrow> (response \<times> db) + (objectId \<times> db)" where
  "koa_resolve_package e d userId packageName description =
     (case List.find (\<lambda>p. p_name p = packageName) (packages d) of
        Some pkg \<Rightarrow>
          (case equals_method (p_owner pkg) (Str userId) of
             Inl x \<Rightarrow> Inl (Resp 500 (ExnBody x), d)
           | Inr same \<Rightarrow>
               if same then Inr (p_id pkg, d)
               else Inl (Resp 403 (ErrorBody NoPermissionToPublish), d))
      | None \<Rightarrow>
          (case insertOne p_id (packages d)
                  \<lparr>p_id = newPackageId e, p_name = packageName, p_description = description,
                   p_owner = Str userId, p_createdAt = createdAtNow e,
                   p_updatedAt = updatedAtNow e, p_downloads = Some 0\<rparr> of
             Inl x \<Rightarrow> Inl (Resp 500 (ExnBody x), d)
           | Inr ps \<Rightarrow> Inr (newPackageId e, d\<lparr>packages := ps\<rparr>)))"

text \<open>Lines 122-159 of \<open>publish\<close>.\<close>

definition koa_store_version ::
  "env \<Rightarrow> db \<Rightarrow> string \<Rightarrow> objectId \<Rightarrow> string \<Rightarrow> string \<Rightarrow> string \<Rightarrow> string \<Rightarrow> buffer
     \<Rightarrow> response \<times> db" where
  "koa_store_version e d userId pkgId packageName version description filepath fileBuffer =
     (case List.find (\<lambda>v. v_package v = pkgId \<and> v_version v = version) (versions d) of
        Some existingVersion \<Rightarrow> (Resp 400 (ErrorBody VersionExists), d)
      | None \<Rightarrow>
          (let sha256 = sha256hex e fileBuffer in
           case saveFileToGridFS e (fs_files d) fileBuffer (basename filepath)
                  (packageName, version) of
             Inl x \<Rightarrow> (Resp 500 (ExnBody x), d)
           | Inr (fileId, fs) \<Rightarrow>
               (case insertOne v_id (versions d)
                       \<lparr>v_id = newVersionId e, v_package = pkgId, v_version = version,
                        v_description = description, v_sha256 = Some sha256,
                        v_fileSize = length fileBuffer, v_filePath = fileId,
                        v_filename = basename filepath, v_publishedBy = Str userId,
                        v_publishedAt = publishedAtNow e, v_downloads = Some 0\<rparr> of
                  Inl x \<Rightarrow> (Resp 500 (ExnBody x), d\<lparr>fs_files := fs\<rparr>)
                | Inr vs \<Rightarrow>
                    (Resp 200 (PublishedBody (newVersionId e)),
                     d\<lparr>fs_files := fs, versions := vs\<rparr>))))"

text \<open>\<open>publish\<close> (lines 75-164).\<close>

definition koa_publish ::
  "env \<Rightarrow> db \<Rightarrow> string \<Rightarrow> string \<Rightarrow> string \<Rightarrow> string \<Rightarrow> koa_file \<Rightarrow> response \<times> db" where
  "koa_publish e d userId packageName version description file =
     (case file of
        OneFile filepath fileBuffer \<Rightarrow>
          (case koa_resolve_package e d userId packageName description of
             Inl r \<Rightarrow> r
           | Inr (pkgId, d1) \<Rightarrow>
               koa_store_version e d1 userId pkgId packageName version description
                 filepath fileBuffer)
      | _ \<Rightarrow> (Resp 400 (ErrorBody FileNotUploaded), d))"

text \<open>\<open>deletePackage\<close> (lines 170-191): the owner is compared with \<open>!==\<close>.\<close>

definition koa_deletePackage :: "db \<Rightarrow> string \<Rightarrow> string \<Rightarrow> response \<times> db" where
  "koa_deletePackage d userId packageName =
     (case List.find (\<lambda>p. p_name p = packageName) (packages d) of
        None \<Rightarrow> (Resp 404 (ErrorBody PackageNotFound), d)
      | Some pkg \<Rightarrow>
          if strict_neq (p_owner pkg) (Str userId)
          then (Resp 403 (ErrorBody NoPermissionToDelete), d)
          else (Resp 200 (MessageBody PackageDeleted),
                d\<lparr>packages := deleteOne (\<lambda>p. p_id p = p_id pkg) (packages d)\<rparr>))"

text \<open>\<open>download\<close> (lines 197-228): the download stream itself is the body, so what the
  client receives is what reading that stream gives.\<close>

definition koa_download :: "db \<Rightarrow> string \<Rightarrow> string \<Rightarrow> response \<times> db" where
  "koa_download d packageName version =
     (case List.find (\<lambda>p. p_name p = packageName) (packages d) of
        None \<Rightarrow> (Resp 404 (ErrorBody PackageNotFound), d)
      | Some pkg \<Rightarrow>
          (case List.find (\<lambda>v. v_package v = p_id pkg \<and> v_version v = version) (versions d) of
             None \<Rightarrow> (Resp 404 (ErrorBody VersionNotFound), d)
           | Some versionInfo \<Rightarrow>
               (case newObjectId (v_filePath versionInfo) of
                  Inl x \<Rightarrow> (Resp 500 (ExnBody x), d)
                | Inr fileId \<Rightarrow>
                    (Resp 200 (StreamBody (v_filename versionInfo)
                                 (openDownloadStream (fs_files d) fileId)), d))))"

section \<open>The authentication controllers\<close>

text \<open>Hono: src/backend/src/controllers/authController.ts (after the package controller
  in the same file). \<open>register\<close>, lines 25-46.\<close>

definition hono_register ::
  "env \<Rightarrow> db \<Rightarrow> string option \<Rightarrow> string option \<Rightarrow> response \<times> db" where
  "hono_register e d username password =
     (case username of
        None \<Rightarrow> (Resp 400 (ErrorBody MissingUsernameOrPassword), d)
      | Some u \<Rightarrow>
          (case password of
             None \<Rightarrow> (Resp 400 (ErrorBody MissingUsernameOrPassword), d)
           | Some pw \<Rightarrow>
               if u = [] \<or> pw = [] then (Resp 400 (ErrorBody MissingUsernameOrPassword), d)
               else (let hashedPassword = hashPassword e pw;
                         apiKey = generateApiKey (random e) in
                     case insertOne u_id (users d)
                            \<lparr>u_id = newUserId e, u_username = u, u_password = hashedPassword,
                             u_apiKey = apiKey, u_createdAt = None, u_lastLogin = None\<rparr> of
                       Inl x \<Rightarrow> (Resp 500 (ExnBody x), d)
                     | Inr us \<Rightarrow>
                         (Resp 201 (CredentialsBody (newUserId e) apiKey),
                          d\<lparr>users := us\<rparr>))))"

text \<open>\<open>login\<close>, lines 53-71.\<close>

definition hono_login ::
  "env \<Rightarrow> db \<Rightarrow> string option \<Rightarrow> string option \<Rightarrow> response \<times> db" where
  "hono_login e d username password =
     (case username of
        None \<Rightarrow> (Resp 400 (ErrorBody MissingUsernameOrPassword), d)
      | Some u \<Rightarrow>
          (case password of
             None \<Rightarrow> (Resp 400 (ErrorBody MissingUsernameOrPassword), d)
           | Some pw \<Rightarrow>
               if u = [] \<or> pw = [] then (Resp 400 (ErrorBody MissingUsernameOrPassword), d)
               else (case List.find (\<lambda>x. u_username x = u) (users d) of
                  None \<Rightarrow> (Resp 404 (ErrorBody UserNotFound), d)
                | Some user \<Rightarrow>
                    if verifyPassword e (u_password user) pw
                    then (Resp 200 (CredentialsBody (u_id user) (u_apiKey user)), d)
                    else (Resp 401 (ErrorBody WrongPassword), d))))"

text \<open>\<open>removeAccount\<close>, lines 78-89; \<open>userId\<close> is \<open>c.env.userId\<close>.\<close>

definition hono_removeAccount :: "db \<Rightarrow> string option \<Rightarrow> response \<times> db" where
  "hono_removeAccount d userId =
     (case userId of
        None \<Rightarrow> (Resp 401 (ErrorBody Unauthenticated), d)
      | Some uid \<Rightarrow>
          if uid = [] then (Resp 401 (ErrorBody Unauthenticated), d)
          else (case newObjectId uid of
             Inl x \<Rightarrow> (Resp 500 (ExnBody x), d)
           | Inr oid \<Rightarrow>
               (Resp 200 (MessageBody UserDeleted),
                d\<lparr>users := deleteOne (\<lambda>u. u_id u = oid) (users d)\<rparr>)))"

text \<open>Koa: src/src/middlewares/auth.ts, lines 287-403. \<open>register\<close>, lines 299-338.\<close>

definition koa_register :: "env \<Rightarrow> db \<Rightarrow> string \<Rightarrow> string \<Rightarrow> response \<times> db" where
  "koa_register e d username password =
     (case List.find (\<lambda>x. u_username x = username) (users d) of
        Some existingUser \<Rightarrow> (Resp 400 (ErrorBody UsernameExists), d)
      | None \<Rightarrow>
          (let passwordHash = hashPassword e password;
               apiKey = generateApiKey (random e) in
           case insertOne u_id (users d)
                  \<lparr>u_id = newUserId e, u_username = username, u_password = passwordHash,
                   u_apiKey = apiKey, u_createdAt = Some (createdAtNow e),
                   u_lastLogin = Some (lastLoginNow e)\<rparr> of
             Inl x \<Rightarrow> (Resp 500 (ExnBody x), d)
           | Inr us \<Rightarrow> (Resp 201 (CredentialsBody (newUserId e) apiKey), d\<lparr>users := us\<rparr>)))"

text \<open>\<open>updateOne(filter, {$set: ...})\<close> changes the first document that matches.\<close>

fun updateOne :: "('a \<Rightarrow> bool) \<Rightarrow> ('a \<Rightarrow> 'a) \<Rightarrow> 'a list \<Rightarrow> 'a list" where
  "updateOne P f [] = []"
| "updateOne P f (x # xs) = (if P x then f x # xs else x # updateOne P f xs)"

text \<open>\<open>login\<close>, lines 345-377.\<close>

definition koa_login :: "env \<Rightarrow> db \<Rightarrow> string \<Rightarrow> string \<Rightarrow> response \<times> db" where
  "koa_login e d username password =
     (case List.find (\<lambda>x. u_username x = username) (users d) of
        None \<Rightarrow> (Resp 401 (ErrorBody UserNotFound), d)
      | Some user \<Rightarrow>
          if verifyPassword e (u_password user) password
          then (Resp 200 (CredentialsBody (u_id user) (u_apiKey user)),
                d\<lparr>users := updateOne (\<lambda>x. u_id x = u_id user)
                               (\<lambda>x. x\<lparr>u_lastLogin := Some (lastLoginNow e)\<rparr>) (users d)\<rparr>)
          else (Resp 401 (ErrorBody WrongPassword), d))"

text \<open>\<open>removeAccount\<close>, lines 384-402; \<open>userId\<close> is \<open>ctx.state.userId\<close>. The filter
  \<open>{owner: new ObjectId(userId)}\<close> matches the documents whose owner is that ObjectId (a
  string never equals an ObjectId in a query).\<close>

definition koa_removeAccount :: "db \<Rightarrow> string option \<Rightarrow> response \<times> db" where
  "koa_removeAccount d userId =
     (case userId of
        None \<Rightarrow> (Resp 401 (ErrorBody Unauthenticated), d)
      | Some uid \<Rightarrow>
          if uid = [] then (Resp 401 (ErrorBody Unauthenticated), d)
          else (case newObjectId uid of
             Inl x \<Rightarrow> (Resp 500 (ExnBody x), d)
           | Inr oid \<Rightarrow>
               (Resp 200 (MessageBody AccountDeleted),
                d\<lparr>users := deleteOne (\<lambda>u. u_id u = oid) (users d),
                  packages := deleteMany (\<lambda>p. p_owner p = Oid oid) (packages d)\<rparr>)))"

section \<open>The routes\<close>

text \<open>src/backend/src/routes/packageRoutes.ts and src/src/routes/*.ts: publish,
  deletePackage and removeAccount run behind \<open>authenticate(db)\<close>; the other operations take
  no credentials.\<close>

definition hono_route_publish ::
  "env \<Rightarrow> db \<Rightarrow> string option \<Rightarrow> string option \<Rightarrow> string option \<Rightarrow> string option
     \<Rightarrow> string option \<Rightarrow> form_entry \<Rightarrow> response \<times> db" where
  "hono_route_publish e d apiKey userIdHeader packageName version description fileField =
     (case authenticate d apiKey userIdHeader of
        Reject r \<Rightarrow> (r, d)
      | Pass uid \<Rightarrow> hono_publish e d userIdHeader packageName version description fileField)"

definition hono_route_deletePackage ::
  "db \<Rightarrow> string option \<Rightarrow> string option \<Rightarrow> string \<Rightarrow> response \<times> db" where
  "hono_route_deletePackage d apiKey userIdHeader packageName =
     (case authenticate d apiKey userIdHeader of
        Reject r \<Rightarrow> (r, d)
      | Pass uid \<Rightarrow> hono_deletePackage d userIdHeader packageName)"

definition hono_route_removeAccount :: "db \<Rightarrow> string option \<Rightarrow> string option \<Rightarrow> response \<times> db" where
  "hono_route_removeAccount d apiKey userIdHeader =
     (case authenticate d apiKey userIdHeader of
        Reject r \<Rightarrow> (r, d)
      | Pass uid \<Rightarrow> hono_removeAccount d (Some uid))"

definition koa_route_publish ::
  "env \<Rightarrow> db \<Rightarrow> string option \<Rightarrow> string option \<Rightarrow> string \<Rightarrow> string \<Rightarrow> string \<Rightarrow> koa_file
     \<Rightarrow> response \<times> db" where
  "koa_route_publish e d apiKey userIdHeader packageName version description file =
     (case authenticate d apiKey userIdHeader of
        Reject r \<Rightarrow> (r, d)
      | Pass uid \<Rightarrow> koa_publish e d uid packageName version description file)"

definition koa_route_deletePackage ::
  "db \<Rightarrow> string option \<Rightarrow> string option \<Rightarrow> string \<Rightarrow> response \<times> db" where
  "koa_route_deletePackage d apiKey userIdHeader packageName =
     (case authenticate d apiKey userIdHeader of
        Reject r \<Rightarrow> (r, d)
      | Pass uid \<Rightarrow> koa_deletePackage d uid packageName)"

definition koa_route_removeAccount :: "db \<Rightarrow> string option \<Rightarrow> string option \<Rightarrow> response \<times> db" where
  "koa_route_removeAccount d apiKey userIdHeader =
     (case authenticate d apiKey userIdHeader of
        Reject r \<Rightarrow> (r, d)
      | Pass uid \<Rightarrow> koa_removeAccount d (Some uid))"

section \<open>Sequences of requests and the state invariant\<close>

text \<open>The requests that can change or read the store through the two routers, and the
  store after a sequence of them (each with what it reads from outside). The listings
  \<open>searchPackages\<close> and \<open>getPackageVersions\<close> only read and are left out.\<close>

datatype request =
    HonoPublish "string option" "string option" "string option" "string option"
      "string option" form_entry
  | HonoDeletePackage "string option" "string option" string
  | HonoDownload string string
  | HonoRegister "string option" "string option"
  | HonoLogin "string option" "string option"
  | HonoRemoveAccount "string option" "string option"
  | KoaPublish "string option" "string option" string string string koa_file
  | KoaDeletePackage "string option" "string option" string
  | KoaDownload string string
  | KoaRegister string string
  | KoaLogin string string
  | KoaRemoveAccount "string option" "string option"
  | GetLatestVersion string

fun handle :: "env \<Rightarrow> db \<Rightarrow> request \<Rightarrow> response \<times> db" where
  "handle e d (HonoPublish k h pn ver des ff) = hono_route_publish e d k h pn ver des ff"
| "handle e d (HonoDeletePackage k h pn) = hono_route_deletePackage d k h pn"
| "handle e d (HonoDownload pn ver) = hono_download d pn ver"
| "handle e d (HonoRegister u pw) = hono_register e d u pw"
| "handle e d (HonoLogin u pw) = hono_login e d u pw"
| "handle e d (HonoRemoveAccount k h) = hono_route_removeAccount d k h"
| "handle e d (KoaPublish k h pn ver des f) = koa_route_publish e d k h pn ver des f"
| "handle e d (KoaDeletePackage k h pn) = koa_route_deletePackage d k h pn"
| "handle e d (KoaDownload pn ver) = koa_download d pn ver"
| "handle e d (KoaRegister u pw) = koa_register e d u pw"
| "handle e d (KoaLogin u pw) = koa_login e d u pw"
| "handle e d (KoaRemoveAccount k h) = koa_route_removeAccount d k h"
| "handle e d (GetLatestVersion pn) = getLatestVersion d pn"

fun run :: "db \<Rightarrow> (env \<times> request) list \<Rightarrow> db" where
  "run d [] = d"
| "run d ((e, r) # rs) = run (snd (handle e d r)) rs"

definition empty_db :: db where
  "empty_db = \<lparr>users = [], packages = [], versions = [], fs_files = []\<rparr>"

text \<open>A version's blob id resolves when the bucket holds a file of that id; the bucket's
  ids are pairwise distinct, so it is then exactly one file.\<close>

definition blob_resolves :: "db \<Rightarrow> version_doc \<Rightarrow> bool" where
  "blob_resolves d v = (v_filePath v \<in> f_id ` set (fs_files d))"

definition no_dangling :: "db \<Rightarrow> bool" where
  "no_dangling d =
     (distinct (map f_id (fs_files d)) \<and> list_all (blob_resolves d) (versions d))"

section \<open>A concrete registry\<close>

text \<open>Two users, alice and bob, and the requests of the scenario: alice publishes
  leftpad 1.0.0 with a payload of ten bytes.\<close>

definition alice_id :: string where "alice_id = ''aaaaaaaaaaaaaaaaaaaaaaaa''"
definition bob_id :: string where "bob_id = ''bbbbbbbbbbbbbbbbbbbbbbbb''"

definition payload :: buffer where "payload = [1, 2, 3, 4, 5, 6, 7, 8, 9, 10]"

definition env1 :: env where
  "env1 = \<lparr>newUserId = ''cccccccccccccccccccccccc'',
     newPackageId = ''111111111111111111111111'', newFileId = ''222222222222222222222222'',
     newVersionId = ''333333333333333333333333'',
     createdAtNow = 1000, updatedAtNow = 1000, publishedAtNow = 1001, lastLoginNow = 1002,
     random = (\<lambda>n. of_nat n), hashPassword = (\<lambda>p. ''h:'' @ p),
     verifyPassword = (\<lambda>h p. h = ''h:'' @ p), sha256hex = toHex\<rparr>"

definition env2 :: env where
  "env2 = \<lparr>newUserId = ''dddddddddddddddddddddddd'',
     newPackageId = ''444444444444444444444444'', newFileId = ''555555555555555555555555'',
     newVersionId = ''666666666666666666666666'',
     createdAtNow = 2000, updatedAtNow = 2000, publishedAtNow = 2001, lastLoginNow = 2002,
     random = (\<lambda>n. of_nat (n + 100)), hashPassword = (\<lambda>p. ''h:'' @ p),
     verifyPassword = (\<lambda>h p. h = ''h:'' @ p), sha256hex = toHex\<rparr>"

definition alice :: user_doc where
  "alice = \<lparr>u_id = alice_id, u_username = ''alice'', u_password = ''h:pw123'',
     u_apiKey = ''key-a'', u_createdAt = None, u_lastLogin = None\<rparr>"

definition bob :: user_doc where
  "bob = \<lparr>u_id = bob_id, u_username = ''bob'', u_password = ''h:pw456'',
     u_apiKey = ''key-b'', u_createdAt = None, u_lastLogin = None\<rparr>"

definition db0 :: db where
  "db0 = \<lparr>users = [alice, bob], packages = [], versions = [], fs_files = []\<rparr>"

text \<open>The store after alice's first publish, through the Hono router and through the Koa
  router.\<close>

definition hono_db1 :: db where
  "hono_db1 = snd (hono_route_publish env1 db0 (Some ''key-a'') (Some alice_id)
     (Some ''leftpad'') (Some ''1.0.0'') (Some ''pads strings'')
     (FileEntry ''leftpad.tgz'' payload))"

definition koa_db1 :: db where
  "koa_db1 = snd (koa_route_publish env1 db0 (Some ''key-a'') (Some alice_id)
     ''leftpad'' ''1.0.0'' ''pads strings'' (OneFile ''/tmp/upload/leftpad.tgz'' payload))"

text \<open>The same store after alice's publish of leftpad 2.0.0 through the Hono router.\<close>

definition hono_db2 :: db where
  "hono_db2 = snd (hono_route_publish env2 hono_db1 (Some ''key-a'') (Some alice_id)
     (Some ''leftpad'') (Some ''2.0.0'') (Some ''pads more'')
     (FileEntry ''leftpad2.tgz'' payload))"

definition leftpad_hono :: package_doc where
  "leftpad_hono = \<lparr>p_id = ''111111111111111111111111'', p_name = ''leftpad'',
     p_description = ''pads strings'', p_owner = Oid alice_id, p_createdAt = 1000,
     p_updatedAt = 1000, p_downloads = None\<rparr>"

definition leftpad_v1 :: version_doc where
  "leftpad_v1 = \<lparr>v_id = ''333333333333333333333333'',
     v_package = ''111111111111111111111111'', v_version = ''1.0.0'',
     v_description = ''pads strings'', v_sha256 = None, v_fileSize = 10,
     v_filePath = ''222222222222222222222222'', v_filename = ''leftpad.tgz'',
     v_publishedBy = Oid alice_id, v_publishedAt = 1001, v_downloads = None\<rparr>"

definition leftpad_v2 :: version_doc where
  "leftpad_v2 = \<lparr>v_id = ''666666666666666666666666'',
     v_package = ''111111111111111111111111'', v_version = ''2.0.0'',
     v_description = ''pads more'', v_sha256 = None, v_fileSize = 10,
     v_filePath = ''555555555555555555555555'', v_filename = ''leftpad2.tgz'',
     v_publishedBy = Oid alice_id, v_publishedAt = 2001, v_downloads = None\<rparr>"

definition leftpad_blob1 :: gridfs_file where
  "leftpad_blob1 = \<lparr>f_id = ''222222222222222222222222'', f_filename = ''leftpad.tgz'',
     f_metadata = (''leftpad'', ''1.0.0''), f_data = payload\<rparr>"

definition leftpad_blob2 :: gridfs_file where
  "leftpad_blob2 = \<lparr>f_id = ''555555555555555555555555'', f_filename = ''leftpad2.tgz'',
     f_metadata = (''leftpad'', ''2.0.0''), f_data = payload\<rparr>"

text \<open>The documents of \<open>koa_db1\<close>.\<close>

definition leftpad_koa :: package_doc where
  "leftpad_koa = \<lparr>p_id = ''111111111111111111111111'', p_name = ''leftpad'',
     p_description = ''pads strings'', p_owner = Str alice_id, p_createdAt = 1000,
     p_updatedAt = 1000, p_downloads = Some 0\<rparr>"

definition leftpad_v1_koa :: version_doc where
  "leftpad_v1_koa = \<lparr>v_id = ''333333333333333333333333'',
     v_package = ''111111111111111111111111'', v_version = ''1.0.0'',
     v_description = ''pads strings'', v_sha256 = Some ''0102030405060708090a'',
     v_fileSize = 10, v_filePath = ''222222222222222222222222'',
     v_filename = ''leftpad.tgz'', v_publishedBy = Str alice_id, v_publishedAt = 1001,
     v_downloads = Some 0\<rparr>"

text \<open>A second user document of the name alice, and alice after a login at 1002.\<close>

definition alice_again :: user_doc where
  "alice_again = \<lparr>u_id = ''cccccccccccccccccccccccc'', u_username = ''alice'',
     u_password = ''h:other'', u_apiKey = generateApiKey (random env1),
     u_createdAt = None, u_lastLogin = None\<rparr>"

definition alice_logged_in :: user_doc where
  "alice_logged_in = alice\<lparr>u_lastLogin := Some 1002\<rparr>"

text \<open>A store in which a package exists without any version.\<close>

definition db_no_versions :: db where
  "db_no_versions = \<lparr>users = [alice, bob], packages = [leftpad_hono], versions = [],
     fs_files = []\<rparr>"

text \<open>What a publish may do to the store, the response being \<open>r\<close> and the artifact
  \<open>buf\<close>: the users stay; on status 200 the bucket gains exactly one file, of a new id and
  holding the artifact, and the versions gain exactly one document, whose blob id is that
  file's; on any other status no version is added and the bucket is unchanged or has gained
  one file (an orphan).\<close>

definition publish_effect :: "db \<Rightarrow> buffer \<Rightarrow> response \<Rightarrow> db \<Rightarrow> bool" where
  "publish_effect d buf r d' =
     (users d' = users d \<and>
      (if status r = 200
       then (\<exists>f v. fs_files d' = fs_files d @ [f] \<and> f_id f \<notin> f_id ` set (fs_files d) \<and>
                   f_data f = buf \<and> versions d' = versions d @ [v] \<and> v_filePath v = f_id f)
       else versions d' = versions d \<and>
            (fs_files d' = fs_files d \<or>
             (\<exists>f. fs_files d' = fs_files d @ [f] \<and> f_id f \<notin> f_id ` set (fs_files d)))))"

text \<open>The requests that pass the checks of lines 24-43 of the Hono \<open>publish\<close>.\<close>

definition hono_publish_accepts ::
  "string option \<Rightarrow> string option \<Rightarrow> string option \<Rightarrow> string option \<Rightarrow> form_entry \<Rightarrow> bool" where
  "hono_publish_accepts h pn ver des ff =
     (\<not> falsy h \<and> \<not> falsy pn \<and> \<not> falsy ver \<and> \<not> falsy des \<and>
      (case h of Some s \<Rightarrow> isValidHex s | None \<Rightarrow> False) \<and>
      (case ff of FileEntry n b \<Rightarrow> True | _ \<Rightarrow> False))"

text \<open>Two stores with the same versions and the same bucket.\<close>

definition same_blobs :: "db \<Rightarrow> db \<Rightarrow> bool" where
  "same_blobs d d' = (versions d' = versions d \<and> fs_files d' = fs_files d)"

text \<open>An environment whose new version id is taken in \<open>hono_db1\<close>: the insert of the
  version document fails there, after the upload.\<close>

definition env_clash :: env where
  "env_clash = env2\<lparr>newVersionId := ''333333333333333333333333''\<rparr>"

section \<open>Basic facts\<close>

lemma falsy_iff: "falsy h \<longleftrightarrow> h = None \<or> h = Some []"
  by (cases h) auto


lemma hono_db1_eq:
  "hono_db1 = \<lparr>users = [alice, bob], packages = [leftpad_hono], versions = [leftpad_v1],
     fs_files = [leftpad_blob1]\<rparr>"
  by code_simp

lemma hono_db2_eq:
  "hono_db2 = \<lparr>users = [alice, bob], packages = [leftpad_hono],
     versions = [leftpad_v1, leftpad_v2], fs_files = [leftpad_blob1, leftpad_blob2]\<rparr>"
  by code_simp

lemma koa_db1_eq:
  "koa_db1 = \<lparr>users = [alice, bob], packages = [leftpad_koa], versions = [leftpad_v1_koa],
     fs_files = [leftpad_blob1]\<rparr>"
  by code_simp

section \<open>What publish does to the store\<close>

lemma insertOne_Inr:
  "insertOne key coll doc = Inr xs \<longleftrightarrow> key doc \<notin> key ` set coll \<and> xs = coll @ [doc]"
  by (auto simp: insertOne_def)

lemma insertOne_Inl:
  "insertOne key coll doc = Inl x \<longleftrightarrow> key doc \<in> key ` set coll \<and> x = DuplicateKeyError"
  by (auto simp: insertOne_def)

lemma saveFileToGridFS_Inr:
  "saveFileToGridFS e fs buf fn md = Inr (fid, fs') \<longleftrightarrow>
     newFileId e \<notin> f_id ` set fs \<and> fid = newFileId e \<and>
     fs' = fs @ [\<lparr>f_id = newFileId e, f_filename = fn, f_metadata = md, f_data = buf\<rparr>]"
  by (auto simp: saveFileToGridFS_def insertOne_def)

lemma saveFileToGridFS_Inl:
  "saveFileToGridFS e fs buf fn md = Inl x \<longleftrightarrow>
     newFileId e \<in> f_id ` set fs \<and> x = DuplicateKeyError"
  by (auto simp: saveFileToGridFS_def insertOne_def)

lemma no_dangling_cong:
  "versions d' = versions d \<Longrightarrow> fs_files d' = fs_files d \<Longrightarrow> no_dangling d' = no_dangling d"
  by (simp add: no_dangling_def blob_resolves_def list_all_iff)

lemma no_dangling_orphan:
  assumes "no_dangling d" "versions d' = versions d" "fs_files d' = fs_files d @ [f]"
    "f_id f \<notin> f_id ` set (fs_files d)"
  shows "no_dangling d'"
  using assms by (auto simp: no_dangling_def blob_resolves_def list_all_iff)

lemma no_dangling_publish:
  assumes "no_dangling d" "versions d' = versions d @ [v]" "fs_files d' = fs_files d @ [f]"
    "f_id f \<notin> f_id ` set (fs_files d)" "v_filePath v = f_id f"
  shows "no_dangling d'"
  using assms by (auto simp: no_dangling_def blob_resolves_def list_all_iff)

lemma hono_store_version_effect:
  "hono_store_version e d u pk pn ver des fn buf = (r, d') \<Longrightarrow>
     packages d' = packages d \<and> publish_effect d buf r d'"
  unfolding hono_store_version_def publish_effect_def
  by (auto split: option.splits sum.splits prod.splits
      simp: saveFileToGridFS_Inr insertOne_Inr insertOne_Inl)

lemma koa_store_version_effect:
  "koa_store_version e d u pk pn ver des fp buf = (r, d') \<Longrightarrow>
     packages d' = packages d \<and> publish_effect d buf r d'"
  unfolding koa_store_version_def publish_effect_def Let_def
  by (auto split: option.splits sum.splits prod.splits
      simp: saveFileToGridFS_Inr insertOne_Inr insertOne_Inl)

lemma hono_resolve_package_Inl:
  "hono_resolve_package e d u pn des = Inl (r, d') \<Longrightarrow> d' = d \<and> status r \<noteq> 200"
  unfolding hono_resolve_package_def
  by (auto split: option.splits sum.splits if_splits)

lemma hono_resolve_package_Inr:
  "hono_resolve_package e d u pn des = Inr (pk, d') \<Longrightarrow>
     users d' = users d \<and> versions d' = versions d \<and> fs_files d' = fs_files d"
  unfolding hono_resolve_package_def
  by (auto split: option.splits sum.splits if_splits)

lemma koa_resolve_package_Inl:
  "koa_resolve_package e d u pn des = Inl (r, d') \<Longrightarrow> d' = d \<and> status r \<noteq> 200"
  unfolding koa_resolve_package_def
  by (auto split: option.splits sum.splits if_splits)

lemma koa_resolve_package_Inr:
  "koa_resolve_package e d u pn des = Inr (pk, d') \<Longrightarrow>
     users d' = users d \<and> versions d' = versions d \<and> fs_files d' = fs_files d"
  unfolding koa_resolve_package_def
  by (auto split: option.splits sum.splits if_splits)

lemma publish_effect_refl: "status r \<noteq> 200 \<Longrightarrow> publish_effect d buf r d"
  by (simp add: publish_effect_def)

lemma publish_effect_trans:
  "users d1 = users d \<Longrightarrow> versions d1 = versions d \<Longrightarrow> fs_files d1 = fs_files d \<Longrightarrow>
   publish_effect d1 buf r d' \<Longrightarrow> publish_effect d buf r d'"
  by (cases "status r = 200") (auto simp: publish_effect_def)

lemma hono_publish_valid:
  "h \<noteq> [] \<Longrightarrow> newObjectId h = Inr u \<Longrightarrow> pn \<noteq> [] \<Longrightarrow> ver \<noteq> [] \<Longrightarrow> des \<noteq> [] \<Longrightarrow>
   hono_publish e d (Some h) (Some pn) (Some ver) (Some des) (FileEntry fn buf) =
     (case hono_resolve_package e d u pn des of
        Inl r \<Rightarrow> r
      | Inr (pk, d1) \<Rightarrow> hono_store_version e d1 u pk pn ver des fn buf)"
  by (simp add: hono_publish_def)

lemma hono_publish_rejects:
  "\<not> hono_publish_accepts h pn ver des ff \<Longrightarrow>
     snd (hono_publish e d h pn ver des ff) = d \<and>
     status (fst (hono_publish e d h pn ver des ff)) \<in> {400, 401, 500}"
  unfolding hono_publish_accepts_def hono_publish_def newObjectId_def
  by (cases h; cases pn; cases ver; cases des; cases ff) auto

lemma hono_publish_accepts_D:
  assumes "hono_publish_accepts h pn ver des ff"
  obtains s u n v ds fn buf where "h = Some s" "s \<noteq> []" "newObjectId s = Inr u"
    "pn = Some n" "n \<noteq> []" "ver = Some v" "v \<noteq> []" "des = Some ds" "ds \<noteq> []"
    "ff = FileEntry fn buf"
  using assms unfolding hono_publish_accepts_def newObjectId_def
  by (cases h; cases pn; cases ver; cases des; cases ff) auto

lemma hono_publish_effect:
  assumes "hono_publish e d h pn ver des ff = (r, d')"
  shows "publish_effect d (case ff of FileEntry n b \<Rightarrow> b | _ \<Rightarrow> []) r d'"
proof (cases "hono_publish_accepts h pn ver des ff")
  case False
  from hono_publish_rejects [OF False, of e d] assms
  have "d' = d" "status r \<noteq> 200" by auto
  then show ?thesis by (simp add: publish_effect_refl)
next
  case True
  then obtain s u n v ds fn buf where v: "h = Some s" "s \<noteq> []" "newObjectId s = Inr u"
    "pn = Some n" "n \<noteq> []" "ver = Some v" "v \<noteq> []" "des = Some ds" "ds \<noteq> []"
    "ff = FileEntry fn buf"
    by (rule hono_publish_accepts_D)
  have eq: "(case hono_resolve_package e d u n ds of
        Inl r \<Rightarrow> r
      | Inr (pk, d1) \<Rightarrow> hono_store_version e d1 u pk n v ds fn buf) = (r, d')"
    using assms v by (simp add: hono_publish_valid)
  show ?thesis
  proof (cases "hono_resolve_package e d u n ds")
    case (Inl a)
    with eq have a: "hono_resolve_package e d u n ds = Inl (r, d')" by simp
    from hono_resolve_package_Inl [OF a] show ?thesis by (simp add: publish_effect_refl)
  next
    case (Inr b)
    obtain pk d1 where b: "b = (pk, d1)" by (cases b)
    with Inr eq have st: "hono_store_version e d1 u pk n v ds fn buf = (r, d')" by simp
    from Inr b have rs: "hono_resolve_package e d u n ds = Inr (pk, d1)" by simp
    from hono_resolve_package_Inr [OF rs] hono_store_version_effect [OF st] v(10)
    show ?thesis by (auto intro: publish_effect_trans)
  qed
qed

lemma koa_publish_effect:
  assumes "koa_publish e d u pn ver des f = (r, d')"
  shows "publish_effect d (case f of OneFile p b \<Rightarrow> b | _ \<Rightarrow> []) r d'"
proof (cases f)
  case NoFile
  with assms show ?thesis by (auto simp: koa_publish_def publish_effect_refl)
next
  case FileArray
  with assms show ?thesis by (auto simp: koa_publish_def publish_effect_refl)
next
  case (OneFile fp buf)
  with assms have eq: "(case koa_resolve_package e d u pn des of
        Inl r \<Rightarrow> r
      | Inr (pk, d1) \<Rightarrow> koa_store_version e d1 u pk pn ver des fp buf) = (r, d')"
    by (simp add: koa_publish_def)
  show ?thesis
  proof (cases "koa_resolve_package e d u pn des")
    case (Inl a)
    with eq have a: "koa_resolve_package e d u pn des = Inl (r, d')" by simp
    from koa_resolve_package_Inl [OF a] show ?thesis by (simp add: publish_effect_refl)
  next
    case (Inr b)
    obtain pk d1 where b: "b = (pk, d1)" by (cases b)
    with Inr eq have st: "koa_store_version e d1 u pk pn ver des fp buf = (r, d')" by simp
    from Inr b have rs: "koa_resolve_package e d u pn des = Inr (pk, d1)" by simp
    from koa_resolve_package_Inr [OF rs] koa_store_version_effect [OF st] OneFile
    show ?thesis by (auto intro: publish_effect_trans)
  qed
qed

lemma publish_effect_no_dangling:
  assumes "publish_effect d buf r d'" and "no_dangling d"
  shows "no_dangling d'"
proof (cases "status r = 200")
  case True
  with assms(1) obtain f v where p: "versions d' = versions d @ [v]"
    "fs_files d' = fs_files d @ [f]" "f_id f \<notin> f_id ` set (fs_files d)"
    "v_filePath v = f_id f"
    unfolding publish_effect_def by auto
  show ?thesis by (rule no_dangling_publish [OF assms(2) p])
next
  case False
  with assms(1) have v: "versions d' = versions d"
    and f: "fs_files d' = fs_files d \<or>
      (\<exists>f. fs_files d' = fs_files d @ [f] \<and> f_id f \<notin> f_id ` set (fs_files d))"
    unfolding publish_effect_def by auto
  from f show ?thesis
  proof
    assume "fs_files d' = fs_files d"
    with v assms(2) show ?thesis using no_dangling_cong [of d' d] by simp
  next
    assume "\<exists>f. fs_files d' = fs_files d @ [f] \<and> f_id f \<notin> f_id ` set (fs_files d)"
    then obtain f where o: "fs_files d' = fs_files d @ [f]"
      "f_id f \<notin> f_id ` set (fs_files d)"
      by blast
    show ?thesis by (rule no_dangling_orphan [OF assms(2) v o])
  qed
qed

section \<open>The blob invariant\<close>

lemma same_blobs_refl: "same_blobs d d"
  by (simp add: same_blobs_def)

lemma hono_deletePackage_blobs: "same_blobs d (snd (hono_deletePackage d h pn))"
  unfolding hono_deletePackage_def same_blobs_def
  by (simp split: option.splits sum.splits)

lemma koa_deletePackage_blobs: "same_blobs d (snd (koa_deletePackage d u pn))"
  unfolding koa_deletePackage_def same_blobs_def
  by (simp split: option.splits)

lemma hono_download_unchanged: "snd (hono_download d pn ver) = d"
  unfolding hono_download_def by (simp split: option.splits sum.splits)

lemma koa_download_unchanged: "snd (koa_download d pn ver) = d"
  unfolding koa_download_def by (simp split: option.splits sum.splits)

lemma getLatestVersion_unchanged: "snd (getLatestVersion d pn) = d"
  unfolding getLatestVersion_def by (simp split: option.splits list.splits)

lemma hono_register_blobs: "same_blobs d (snd (hono_register e d u pw))"
  unfolding hono_register_def same_blobs_def Let_def
  by (simp split: option.splits sum.splits)

lemma koa_register_blobs: "same_blobs d (snd (koa_register e d u pw))"
  unfolding koa_register_def same_blobs_def Let_def
  by (simp split: option.splits sum.splits)

lemma hono_login_unchanged: "snd (hono_login e d u pw) = d"
  unfolding hono_login_def by (simp split: option.splits)

lemma koa_login_blobs: "same_blobs d (snd (koa_login e d u pw))"
  unfolding koa_login_def same_blobs_def by (simp split: option.splits)

lemma hono_removeAccount_blobs: "same_blobs d (snd (hono_removeAccount d u))"
  unfolding hono_removeAccount_def same_blobs_def by (simp split: option.splits sum.splits)

lemma koa_removeAccount_blobs: "same_blobs d (snd (koa_removeAccount d u))"
  unfolding koa_removeAccount_def same_blobs_def by (simp split: option.splits sum.splits)

lemma same_blobs_no_dangling: "same_blobs d d' \<Longrightarrow> no_dangling d \<Longrightarrow> no_dangling d'"
  using no_dangling_cong [of d' d] by (simp add: same_blobs_def)

lemma handle_no_dangling:
  assumes "no_dangling d"
  shows "no_dangling (snd (handle e d r))"
proof (cases r)
  case (HonoPublish k h pn ver des ff)
  show ?thesis
  proof (cases "authenticate d k h")
    case (Reject x)
    with HonoPublish assms show ?thesis by (simp add: hono_route_publish_def)
  next
    case (Pass uid)
    obtain r' d' where p: "hono_publish e d h pn ver des ff = (r', d')"
      by (cases "hono_publish e d h pn ver des ff")
    from publish_effect_no_dangling [OF hono_publish_effect [OF p] assms]
    show ?thesis using HonoPublish Pass p by (simp add: hono_route_publish_def)
  qed
next
  case (KoaPublish k h pn ver des f)
  show ?thesis
  proof (cases "authenticate d k h")
    case (Reject x)
    with KoaPublish assms show ?thesis by (simp add: koa_route_publish_def)
  next
    case (Pass uid)
    obtain r' d' where p: "koa_publish e d uid pn ver des f = (r', d')"
      by (cases "koa_publish e d uid pn ver des f")
    from publish_effect_no_dangling [OF koa_publish_effect [OF p] assms]
    show ?thesis using KoaPublish Pass p by (simp add: koa_route_publish_def)
  qed
next
  case (HonoDeletePackage k h pn)
  then show ?thesis using assms same_blobs_no_dangling [OF hono_deletePackage_blobs]
    by (cases "authenticate d k h") (simp_all add: hono_route_deletePackage_def)
next
  case (KoaDeletePackage k h pn)
  then show ?thesis using assms same_blobs_no_dangling [OF koa_deletePackage_blobs]
    by (cases "authenticate d k h") (simp_all add: koa_route_deletePackage_def)
next
  case (HonoRemoveAccount k h)
  then show ?thesis using assms same_blobs_no_dangling [OF hono_removeAccount_blobs]
    by (cases "authenticate d k h") (simp_all add: hono_route_removeAccount_def)
next
  case (KoaRemoveAccount k h)
  then show ?thesis using assms same_blobs_no_dangling [OF koa_removeAccount_blobs]
    by (cases "authenticate d k h") (simp_all add: koa_route_removeAccount_def)
next
  case (HonoDownload pn ver)
  then show ?thesis using assms by (simp add: hono_download_unchanged)
next
  case (KoaDownload pn ver)
  then show ?thesis using assms by (simp add: koa_download_unchanged)
next
  case (GetLatestVersion pn)
  then show ?thesis using assms by (simp add: getLatestVersion_unchanged)
next
  case (HonoRegister u pw)
  then show ?thesis using assms same_blobs_no_dangling [OF hono_register_blobs] by simp
next
  case (KoaRegister u pw)
  then show ?thesis using assms same_blobs_no_dangling [OF koa_register_blobs] by simp
next
  case (HonoLogin u pw)
  then show ?thesis using assms by (simp add: hono_login_unchanged)
next
  case (KoaLogin u pw)
  then show ?thesis using assms same_blobs_no_dangling [OF koa_login_blobs] by simp
qed

lemma run_no_dangling: "no_dangling d \<Longrightarrow> no_dangling (run d rs)"
proof (induction rs arbitrary: d)
  case Nil
  then show ?case by simp
next
  case (Cons a rs)
  obtain e r where a: "a = (e, r)" by (cases a)
  from Cons.prems have "no_dangling (snd (handle e d r))" by (rule handle_no_dangling)
  then have "no_dangling (run (snd (handle e d r)) rs)" by (rule Cons.IH)
  with a show ?case by simp
qed

lemma empty_db_no_dangling: "no_dangling empty_db"
  by (simp add: no_dangling_def empty_db_def)

section \<open>The latest version\<close>

lemma sortByPublishedAtDesc_head:
  assumes "xs \<noteq> []"
  shows "\<exists>v rest. sortByPublishedAtDesc xs = v # rest \<and> v \<in> set xs \<and>
           (\<forall>w\<in>set xs. v_publishedAt w \<le> v_publishedAt v)"
proof -
  let ?f = "\<lambda>v. - int (v_publishedAt v)"
  let ?ys = "sort_key ?f xs"
  have set_eq: "set ?ys = set xs" by simp
  have "?ys \<noteq> []" using assms set_eq by (metis set_empty)
  then obtain v rest where ys: "?ys = v # rest" by (cases ?ys) auto
  have "sorted (map ?f ?ys)" by (rule sorted_sort_key)
  with ys have le: "\<forall>w\<in>set rest. ?f v \<le> ?f w" by simp
  have v_in: "v \<in> set xs" using ys set_eq by (metis list.set_intros(1))
  have "\<forall>w\<in>set xs. v_publishedAt w \<le> v_publishedAt v"
  proof
    fix w assume "w \<in> set xs"
    then have "w \<in> set (v # rest)" using ys set_eq by simp
    then show "v_publishedAt w \<le> v_publishedAt v" using le by auto
  qed
  with ys v_in show ?thesis by (simp add: sortByPublishedAtDesc_def)
qed

lemma getLatestVersion_unknown:
  "List.find (\<lambda>p. p_name p = n) (packages d) = None \<Longrightarrow>
     getLatestVersion d n = (Resp 404 (ErrorBody PackageNotFound), d)"
  by (simp add: getLatestVersion_def)

lemma getLatestVersion_empty:
  "List.find (\<lambda>p. p_name p = n) (packages d) = Some pkg \<Longrightarrow>
   filter (\<lambda>v. v_package v = p_id pkg) (versions d) = [] \<Longrightarrow>
     getLatestVersion d n = (Resp 200 (MessageBody NoVersionsYet), d)"
  by (simp add: getLatestVersion_def sortByPublishedAtDesc_def)

lemma getLatestVersion_some:
  assumes "List.find (\<lambda>p. p_name p = n) (packages d) = Some pkg"
    and "filter (\<lambda>v. v_package v = p_id pkg) (versions d) \<noteq> []"
  shows "\<exists>v\<in>set (filter (\<lambda>v. v_package v = p_id pkg) (versions d)).
           getLatestVersion d n = (Resp 200 (VersionBody v), d) \<and>
           (\<forall>w\<in>set (filter (\<lambda>v. v_package v = p_id pkg) (versions d)).
              v_publishedAt w \<le> v_publishedAt v)"
proof -
  let ?vs = "filter (\<lambda>v. v_package v = p_id pkg) (versions d)"
  from sortByPublishedAtDesc_head [OF assms(2)] obtain v rest where
    s: "sortByPublishedAtDesc ?vs = v # rest" and v: "v \<in> set ?vs"
    and m: "\<forall>w\<in>set ?vs. v_publishedAt w \<le> v_publishedAt v" by blast
  have "getLatestVersion d n = (Resp 200 (VersionBody v), d)"
    using assms(1) s by (simp add: getLatestVersion_def)
  with v m show ?thesis by blast
qed

lemma getLatestVersion_newest:
  assumes "List.find (\<lambda>p. p_name p = n) (packages d) = Some pkg"
    and "v2 \<in> set (filter (\<lambda>v. v_package v = p_id pkg) (versions d))"
    and "\<forall>w\<in>set (filter (\<lambda>v. v_package v = p_id pkg) (versions d)).
           w \<noteq> v2 \<longrightarrow> v_publishedAt w < v_publishedAt v2"
  shows "getLatestVersion d n = (Resp 200 (VersionBody v2), d)"
proof -
  let ?vs = "filter (\<lambda>v. v_package v = p_id pkg) (versions d)"
  have ne: "?vs \<noteq> []" using assms(2) by (metis empty_iff empty_set)
  from getLatestVersion_some [OF assms(1) ne] obtain v where
    v: "v \<in> set ?vs" and r: "getLatestVersion d n = (Resp 200 (VersionBody v), d)"
    and m: "\<forall>w\<in>set ?vs. v_publishedAt w \<le> v_publishedAt v" by blast
  have "v = v2"
  proof (rule ccontr)
    assume "v \<noteq> v2"
    with assms(3) v have "v_publishedAt v < v_publishedAt v2" by blast
    moreover from m assms(2) have "v_publishedAt v2 \<le> v_publishedAt v" by blast
    ultimately show False by simp
  qed
  with r show ?thesis by simp
qed


text \<open>Claim C7. \<open>getLatestVersion\<close> answers 404 (package not found) when no package
  has the name; the message "no versions yet" when the package has no version; otherwise a
  version of that package whose \<open>publishedAt\<close> is maximal among the package's versions.
  In particular a version published strictly later than every other version of the package
  is the one returned: with V1 at t1 and V2 at t2, t1 < t2, it is V2.\<close>

theorem getLatestVersion_newest_publishedAt:
  "(List.find (\<lambda>p. p_name p = n) (packages d) = None \<longrightarrow>
      getLatestVersion d n = (Resp 404 (ErrorBody PackageNotFound), d)) \<and>
   (\<forall>pkg. List.find (\<lambda>p. p_name p = n) (packages d) = Some pkg \<longrightarrow>
      (filter (\<lambda>v. v_package v = p_id pkg) (versions d) = [] \<longrightarrow>
         getLatestVersion d n = (Resp 200 (MessageBody NoVersionsYet), d)) \<and>
      (filter (\<lambda>v. v_package v = p_id pkg) (versions d) \<noteq> [] \<longrightarrow>
         (\<exists>v\<in>set (filter (\<lambda>v. v_package v = p_id pkg) (versions d)).
            getLatestVersion d n = (Resp 200 (VersionBody v), d) \<and>
            (\<forall>w\<in>set (filter (\<lambda>v. v_package v = p_id pkg) (versions d)).
               v_publishedAt w \<le> v_publishedAt v))) \<and>
      (\<forall>v2\<in>set (filter (\<lambda>v. v_package v = p_id pkg) (versions d)).
         (\<forall>w\<in>set (filter (\<lambda>v. v_package v = p_id pkg) (versions d)).
            w \<noteq> v2 \<longrightarrow> v_publishedAt w < v_publishedAt v2) \<longrightarrow>
         getLatestVersion d n = (Resp 200 (VersionBody v2), d)))"
  using getLatestVersion_unknown getLatestVersion_empty getLatestVersion_some
    getLatestVersion_newest by blast

theorem getLatestVersion_newest_publishedAt_witness:
  "getLatestVersion db0 ''nope'' = (Resp 404 (ErrorBody PackageNotFound), db0) \<and>
   getLatestVersion db_no_versions ''leftpad'' =
     (Resp 200 (MessageBody NoVersionsYet), db_no_versions) \<and>
   v_publishedAt leftpad_v1 < v_publishedAt leftpad_v2 \<and>
   getLatestVersion hono_db2 ''leftpad'' = (Resp 200 (VersionBody leftpad_v2), hono_db2)"
proof -
  have a: "List.find (\<lambda>p. p_name p = ''nope'') (packages db0) = None"
    by (simp add: db0_def)
  have b: "List.find (\<lambda>p. p_name p = ''leftpad'') (packages db_no_versions) = Some leftpad_hono"
    by (simp add: db_no_versions_def leftpad_hono_def)
  have b': "filter (\<lambda>v. v_package v = p_id leftpad_hono) (versions db_no_versions) = []"
    by (simp add: db_no_versions_def)
  have c: "List.find (\<lambda>p. p_name p = ''leftpad'') (packages hono_db2) = Some leftpad_hono"
    by (simp add: hono_db2_eq leftpad_hono_def)
  have c': "filter (\<lambda>v. v_package v = p_id leftpad_hono) (versions hono_db2) =
      [leftpad_v1, leftpad_v2]"
    by (simp add: hono_db2_eq leftpad_hono_def leftpad_v1_def leftpad_v2_def)
  have lt: "v_publishedAt leftpad_v1 < v_publishedAt leftpad_v2"
    by (simp add: leftpad_v1_def leftpad_v2_def)
  have c'': "\<forall>w\<in>set (filter (\<lambda>v. v_package v = p_id leftpad_hono) (versions hono_db2)).
      w \<noteq> leftpad_v2 \<longrightarrow> v_publishedAt w < v_publishedAt leftpad_v2"
    unfolding c' using lt by simp
  have c3: "leftpad_v2 \<in> set (filter (\<lambda>v. v_package v = p_id leftpad_hono) (versions hono_db2))"
    unfolding c' by simp
  from getLatestVersion_newest_publishedAt [of "''nope''" db0] a
  have r1: "getLatestVersion db0 ''nope'' = (Resp 404 (ErrorBody PackageNotFound), db0)"
    by blast
  from getLatestVersion_newest_publishedAt [of "''leftpad''" db_no_versions] b b'
  have r2: "getLatestVersion db_no_versions ''leftpad'' =
     (Resp 200 (MessageBody NoVersionsYet), db_no_versions)"
    by blast
  from getLatestVersion_newest_publishedAt [of "''leftpad''" hono_db2] c c'' c3
  have r3: "getLatestVersion hono_db2 ''leftpad'' = (Resp 200 (VersionBody leftpad_v2), hono_db2)"
    by blast
  from r1 r2 r3 lt show ?thesis by blast
qed

section \<open>Blob before metadata\<close>

lemma db0_no_dangling: "no_dangling db0"
  by (simp add: no_dangling_def db0_def)

lemma hono_clash_eval:
  "hono_publish env_clash hono_db1 (Some alice_id) (Some ''leftpad'') (Some ''2.0.0'')
     (Some ''pads more'') (FileEntry ''leftpad2.tgz'' payload) =
   (Resp 500 (ExnBody DuplicateKeyError),
    \<lparr>users = [alice, bob], packages = [leftpad_hono], versions = [leftpad_v1],
     fs_files = [leftpad_blob1, leftpad_blob2]\<rparr>)"
  by code_simp

lemma hono_first_publish_eval:
  "hono_route_publish env1 db0 (Some ''key-a'') (Some alice_id)
     (Some ''leftpad'') (Some ''1.0.0'') (Some ''pads strings'')
     (FileEntry ''leftpad.tgz'' payload) =
   (Resp 200 (PublishedBody ''333333333333333333333333''), hono_db1)"
  by code_simp

text \<open>Claim C9. Publish writes the artifact to the blob store before it inserts the version
  document: whatever a publish answers (\<open>publish_effect\<close>), a status 200 comes with
  exactly one new file in the bucket and exactly one new version document that carries its
  id, and any other status comes with no new version and at most one new (orphan) file.
  Consequently the invariant \<open>no_dangling\<close> (every version's blob id is the id of a file of
  the bucket, and the bucket's ids are distinct) is kept by every request of both routers,
  and holds after any sequence of requests that starts from the empty store.\<close>

theorem publish_blob_before_version:
  "no_dangling (run empty_db rs) \<and>
   (no_dangling d \<longrightarrow> no_dangling (snd (handle e d r))) \<and>
   publish_effect d (case ff of FileEntry n b \<Rightarrow> b | _ \<Rightarrow> [])
     (fst (hono_publish e d h pn ver des ff)) (snd (hono_publish e d h pn ver des ff)) \<and>
   publish_effect d (case f of OneFile p b \<Rightarrow> b | _ \<Rightarrow> [])
     (fst (koa_publish e d u kpn kver kdes f)) (snd (koa_publish e d u kpn kver kdes f))"
proof -
  have 1: "no_dangling (run empty_db rs)"
    by (rule run_no_dangling [OF empty_db_no_dangling])
  have 2: "no_dangling d \<longrightarrow> no_dangling (snd (handle e d r))"
    by (simp add: handle_no_dangling)
  have 3: "publish_effect d (case ff of FileEntry n b \<Rightarrow> b | _ \<Rightarrow> [])
     (fst (hono_publish e d h pn ver des ff)) (snd (hono_publish e d h pn ver des ff))"
    by (rule hono_publish_effect) simp
  have 4: "publish_effect d (case f of OneFile p b \<Rightarrow> b | _ \<Rightarrow> [])
     (fst (koa_publish e d u kpn kver kdes f)) (snd (koa_publish e d u kpn kver kdes f))"
    by (rule koa_publish_effect) simp
  from 1 2 3 4 show ?thesis by blast
qed

theorem publish_blob_before_version_witness:
  "no_dangling db0 \<and> no_dangling hono_db1 \<and>
   publish_effect hono_db1 payload (Resp 500 (ExnBody DuplicateKeyError))
     \<lparr>users = [alice, bob], packages = [leftpad_hono], versions = [leftpad_v1],
      fs_files = [leftpad_blob1, leftpad_blob2]\<rparr>"
proof -
  let ?r = "HonoPublish (Some ''key-a'') (Some alice_id) (Some ''leftpad'') (Some ''1.0.0'')
     (Some ''pads strings'') (FileEntry ''leftpad.tgz'' payload)"
  have h: "snd (handle env1 db0 ?r) = hono_db1" by (simp add: hono_db1_def)
  from publish_blob_before_version [where d = db0 and e = env1 and r = ?r] db0_no_dangling h
  have a: "no_dangling hono_db1" by simp
  from publish_blob_before_version [where d = hono_db1 and e = env_clash
      and ff = "FileEntry ''leftpad2.tgz'' payload" and h = "Some alice_id"
      and pn = "Some ''leftpad''" and ver = "Some ''2.0.0''" and des = "Some ''pads more''"]
  have b: "publish_effect hono_db1 payload (Resp 500 (ExnBody DuplicateKeyError))
     \<lparr>users = [alice, bob], packages = [leftpad_hono], versions = [leftpad_v1],
      fs_files = [leftpad_blob1, leftpad_blob2]\<rparr>"
    by (simp add: hono_clash_eval)
  from a b db0_no_dangling show ?thesis by blast
qed

section \<open>Validation of a publish request\<close>

lemma authenticate_Pass:
  assumes "authenticate d k h = Pass uid"
  shows "h = Some uid \<and> uid \<noteq> [] \<and>
    (\<exists>oid user. newObjectId uid = Inr oid \<and>
       List.find (\<lambda>u. u_id u = oid) (users d) = Some user \<and> k = Some (u_apiKey user))"
  using assms unfolding authenticate_def
  by (simp split: option.splits if_splits sum.splits)

lemma hono_publish_missing:
  assumes "h \<noteq> []" and "newObjectId h = Inr oid"
    and "falsy pn \<or> falsy ver \<or> falsy des \<or> (\<forall>n b. ff \<noteq> FileEntry n b)"
  shows "hono_publish e d (Some h) pn ver des ff =
     (Resp 400 (ErrorBody (if falsy pn \<or> falsy ver \<or> falsy des then MissingFields
                           else FileMissingOrMalformed)), d)"
  using assms unfolding hono_publish_def
  by (cases pn; cases ver; cases des; cases ff) auto

lemma alice_passes: "authenticate db0 (Some ''key-a'') (Some alice_id) = Pass alice_id"
  by code_simp

text \<open>Claim C10. Behind the authentication middleware, a publish request of the Hono
  controller in which \<open>packageName\<close>, \<open>version\<close> or \<open>description\<close> is missing (or
  empty), or whose \<open>file\<close> field is absent or not a File, is answered 400 and the store is
  left as it was: no package, version or blob is written.\<close>

theorem hono_publish_invalid_input:
  assumes "authenticate d k h = Pass uid"
    and "falsy pn \<or> falsy ver \<or> falsy des \<or> (\<forall>n b. ff \<noteq> FileEntry n b)"
  shows "hono_route_publish e d k h pn ver des ff =
     (Resp 400 (ErrorBody (if falsy pn \<or> falsy ver \<or> falsy des then MissingFields
                           else FileMissingOrMalformed)), d)"
proof -
  from authenticate_Pass [OF assms(1)] obtain oid where
    h: "h = Some uid" "uid \<noteq> []" "newObjectId uid = Inr oid" by blast
  from hono_publish_missing [OF h(2) h(3) assms(2)] assms(1) h(1)
  show ?thesis by (simp add: hono_route_publish_def)
qed

theorem hono_publish_invalid_input_witness:
  "hono_route_publish env1 db0 (Some ''key-a'') (Some alice_id) None (Some ''1.0.0'')
      (Some ''pads strings'') (FileEntry ''leftpad.tgz'' payload) =
     (Resp 400 (ErrorBody MissingFields), db0) \<and>
   hono_route_publish env1 db0 (Some ''key-a'') (Some alice_id) (Some ''leftpad'') (Some [])
      (Some ''pads strings'') (FileEntry ''leftpad.tgz'' payload) =
     (Resp 400 (ErrorBody MissingFields), db0) \<and>
   hono_route_publish env1 db0 (Some ''key-a'') (Some alice_id) (Some ''leftpad'')
      (Some ''1.0.0'') None (FileEntry ''leftpad.tgz'' payload) =
     (Resp 400 (ErrorBody MissingFields), db0) \<and>
   hono_route_publish env1 db0 (Some ''key-a'') (Some alice_id) (Some ''leftpad'')
      (Some ''1.0.0'') (Some ''pads strings'') NoEntry =
     (Resp 400 (ErrorBody FileMissingOrMalformed), db0) \<and>
   hono_route_publish env1 db0 (Some ''key-a'') (Some alice_id) (Some ''leftpad'')
      (Some ''1.0.0'') (Some ''pads strings'') (TextEntry ''not a file'') =
     (Resp 400 (ErrorBody FileMissingOrMalformed), db0)"
  using hono_publish_invalid_input [OF alice_passes, of None "Some ''1.0.0''"
      "Some ''pads strings''" "FileEntry ''leftpad.tgz'' payload" env1]
    hono_publish_invalid_input [OF alice_passes, of "Some ''leftpad''" "Some []"
      "Some ''pads strings''" "FileEntry ''leftpad.tgz'' payload" env1]
    hono_publish_invalid_input [OF alice_passes, of "Some ''leftpad''" "Some ''1.0.0''"
      None "FileEntry ''leftpad.tgz'' payload" env1]
    hono_publish_invalid_input [OF alice_passes, of "Some ''leftpad''" "Some ''1.0.0''"
      "Some ''pads strings''" NoEntry env1]
    hono_publish_invalid_input [OF alice_passes, of "Some ''leftpad''" "Some ''1.0.0''"
      "Some ''pads strings''" "TextEntry ''not a file''" env1]
  by simp

section \<open>Download\<close>

lemma download_unknown_package:
  "List.find (\<lambda>p. p_name p = n) (packages d) = None \<Longrightarrow>
     hono_download d n v = (Resp 404 (ErrorBody PackageNotFound), d) \<and>
     koa_download d n v = (Resp 404 (ErrorBody PackageNotFound), d)"
  by (simp add: hono_download_def koa_download_def)

lemma download_unknown_version:
  "List.find (\<lambda>p. p_name p = n) (packages d) = Some pkg \<Longrightarrow>
   List.find (\<lambda>x. v_package x = p_id pkg \<and> v_version x = v) (versions d) = None \<Longrightarrow>
     hono_download d n v = (Resp 404 (ErrorBody VersionNotFound), d) \<and>
     koa_download d n v = (Resp 404 (ErrorBody VersionNotFound), d)"
  by (simp add: hono_download_def koa_download_def)

lemma download_found:
  "List.find (\<lambda>p. p_name p = n) (packages d) = Some pkg \<Longrightarrow>
   List.find (\<lambda>x. v_package x = p_id pkg \<and> v_version x = v) (versions d) = Some vi \<Longrightarrow>
   newObjectId (v_filePath vi) = Inr fid \<Longrightarrow>
   List.find (\<lambda>f. f_id f = fid) (fs_files d) = Some f \<Longrightarrow>
     hono_download d n v = (Resp 200 (BufferBody (v_filename vi) (f_data f)), d) \<and>
     koa_download d n v = (Resp 200 (StreamBody (v_filename vi) (Inr (f_data f))), d)"
  by (simp add: hono_download_def koa_download_def openDownloadStream_def)

text \<open>Claim C6, as amended. \<open>download\<close> answers 404 when no package has the name and
  404 when the package has no version of that string; when the version is found and its blob
  id is the id of a file of the bucket, the answer is 200 with the bytes of that file (read
  from a download stream opened on the blob id) under the version's file name. In every case
  the store is left exactly as it was: no download counter is changed.\<close>

theorem download_not_found_or_blob:
  "(List.find (\<lambda>p. p_name p = n) (packages d) = None \<longrightarrow>
      hono_download d n v = (Resp 404 (ErrorBody PackageNotFound), d) \<and>
      koa_download d n v = (Resp 404 (ErrorBody PackageNotFound), d)) \<and>
   (\<forall>pkg. List.find (\<lambda>p. p_name p = n) (packages d) = Some pkg \<longrightarrow>
      (List.find (\<lambda>x. v_package x = p_id pkg \<and> v_version x = v) (versions d) = None \<longrightarrow>
         hono_download d n v = (Resp 404 (ErrorBody VersionNotFound), d) \<and>
         koa_download d n v = (Resp 404 (ErrorBody VersionNotFound), d)) \<and>
      (\<forall>vi fid f.
         List.find (\<lambda>x. v_package x = p_id pkg \<and> v_version x = v) (versions d) = Some vi \<and>
         newObjectId (v_filePath vi) = Inr fid \<and>
         List.find (\<lambda>f. f_id f = fid) (fs_files d) = Some f \<longrightarrow>
           hono_download d n v = (Resp 200 (BufferBody (v_filename vi) (f_data f)), d) \<and>
           koa_download d n v =
             (Resp 200 (StreamBody (v_filename vi) (Inr (f_data f))), d))) \<and>
   snd (hono_download d n v) = d \<and> snd (koa_download d n v) = d"
  using download_unknown_package [of n d v] download_unknown_version [of n d _ v]
    download_found [of n d _ v] hono_download_unchanged [of d n v]
    koa_download_unchanged [of d n v]
  by blast

theorem download_not_found_or_blob_witness:
  "hono_download db0 ''nope'' ''1.0.0'' = (Resp 404 (ErrorBody PackageNotFound), db0) \<and>
   koa_download hono_db1 ''leftpad'' ''9.9.9'' = (Resp 404 (ErrorBody VersionNotFound), hono_db1) \<and>
   hono_download hono_db1 ''leftpad'' ''1.0.0'' =
     (Resp 200 (BufferBody ''leftpad.tgz'' payload), hono_db1) \<and>
   koa_download hono_db1 ''leftpad'' ''1.0.0'' =
     (Resp 200 (StreamBody ''leftpad.tgz'' (Inr payload)), hono_db1)"
proof -
  have a: "List.find (\<lambda>p. p_name p = ''nope'') (packages db0) = None"
    by (simp add: db0_def)
  have b: "List.find (\<lambda>p. p_name p = ''leftpad'') (packages hono_db1) = Some leftpad_hono"
    by (simp add: hono_db1_eq leftpad_hono_def)
  have c: "List.find (\<lambda>x. v_package x = p_id leftpad_hono \<and> v_version x = ''9.9.9'')
      (versions hono_db1) = None"
    by (simp add: hono_db1_eq leftpad_hono_def leftpad_v1_def)
  have d: "List.find (\<lambda>x. v_package x = p_id leftpad_hono \<and> v_version x = ''1.0.0'')
      (versions hono_db1) = Some leftpad_v1"
    by (simp add: hono_db1_eq leftpad_hono_def leftpad_v1_def)
  have e: "newObjectId (v_filePath leftpad_v1) = Inr ''222222222222222222222222''"
    by code_simp
  have f: "List.find (\<lambda>f. f_id f = ''222222222222222222222222'') (fs_files hono_db1) =
      Some leftpad_blob1"
    by (simp add: hono_db1_eq leftpad_blob1_def)
  have g: "v_filename leftpad_v1 = ''leftpad.tgz''" "f_data leftpad_blob1 = payload"
    by (simp_all add: leftpad_v1_def leftpad_blob1_def)
  from download_not_found_or_blob [of "''nope''" db0 "''1.0.0''"] a
  have 1: "hono_download db0 ''nope'' ''1.0.0'' = (Resp 404 (ErrorBody PackageNotFound), db0)"
    by blast
  from download_not_found_or_blob [of "''leftpad''" hono_db1 "''9.9.9''"] b c
  have 2: "koa_download hono_db1 ''leftpad'' ''9.9.9'' =
      (Resp 404 (ErrorBody VersionNotFound), hono_db1)"
    by blast
  from download_not_found_or_blob [of "''leftpad''" hono_db1 "''1.0.0''"] b d e f
  have 3: "hono_download hono_db1 ''leftpad'' ''1.0.0'' =
       (Resp 200 (BufferBody (v_filename leftpad_v1) (f_data leftpad_blob1)), hono_db1) \<and>
     koa_download hono_db1 ''leftpad'' ''1.0.0'' =
       (Resp 200 (StreamBody (v_filename leftpad_v1) (Inr (f_data leftpad_blob1))), hono_db1)"
    by blast
  from 1 2 3 g show ?thesis by simp
qed

text \<open>Claim C6 as stated fails: after a successful download the \<open>downloads\<close> fields of
  the version and of the package are what they were.\<close>

theorem download_counter_counterexample:
  "fst (koa_download koa_db1 ''leftpad'' ''1.0.0'') =
     Resp 200 (StreamBody ''leftpad.tgz'' (Inr payload)) \<and>
   map v_downloads (versions koa_db1) = [Some 0] \<and>
   map v_downloads (versions (snd (koa_download koa_db1 ''leftpad'' ''1.0.0''))) = [Some 0] \<and>
   map p_downloads (packages (snd (koa_download koa_db1 ''leftpad'' ''1.0.0''))) = [Some 0] \<and>
   hono_download hono_db1 ''leftpad'' ''1.0.0'' =
     (Resp 200 (BufferBody ''leftpad.tgz'' payload), hono_db1)"
  by code_simp

section \<open>Removing an account\<close>

lemma deleteOne_distinct:
  "distinct (map key xs) \<Longrightarrow> k \<notin> key ` set (deleteOne (\<lambda>x. key x = k) xs)"
  by (induction xs) auto

lemma find_deleteMany_None:
  "(\<forall>p\<in>set ps. P p \<longrightarrow> Q p) \<Longrightarrow> List.find P (deleteMany Q ps) = None"
  by (auto simp: deleteMany_def find_None_iff)

lemma hono_removeAccount_eval:
  assumes "authenticate d k h = Pass uid" and "newObjectId uid = Inr oid"
  shows "hono_route_removeAccount d k h =
     (Resp 200 (MessageBody UserDeleted),
      d\<lparr>users := deleteOne (\<lambda>u. u_id u = oid) (users d)\<rparr>)"
  using assms authenticate_Pass [OF assms(1)]
  by (simp add: hono_route_removeAccount_def hono_removeAccount_def)

lemma koa_removeAccount_eval:
  assumes "authenticate d k h = Pass uid" and "newObjectId uid = Inr oid"
  shows "koa_route_removeAccount d k h =
     (Resp 200 (MessageBody AccountDeleted),
      d\<lparr>users := deleteOne (\<lambda>u. u_id u = oid) (users d),
        packages := deleteMany (\<lambda>p. p_owner p = Oid oid) (packages d)\<rparr>)"
  using assms authenticate_Pass [OF assms(1)]
  by (simp add: koa_route_removeAccount_def koa_removeAccount_def)

lemma alice_passes_hono_db1:
  "authenticate hono_db1 (Some ''key-a'') (Some alice_id) = Pass alice_id"
  by code_simp

lemma alice_oid: "newObjectId alice_id = Inr alice_id"
  by code_simp

text \<open>Claim C4, as amended. When \<open>removeAccount\<close> succeeds for the user of id
  \<open>oid\<close>, through either router, the first user document of that id is deleted (the only
  one when the ids are distinct); the version documents and the files of the bucket are all
  kept. The Koa implementation also deletes every package whose owner field is that
  ObjectId, so none of them is returned by \<open>searchPackages\<close> and a name that only such
  packages carry is answered 404 by \<open>getLatestVersion\<close> and \<open>download\<close>.\<close>

theorem removeAccount_deletes_user_only:
  assumes "authenticate d k h = Pass uid" and "newObjectId uid = Inr oid"
  shows "fst (hono_route_removeAccount d k h) = Resp 200 (MessageBody UserDeleted) \<and>
     fst (koa_route_removeAccount d k h) = Resp 200 (MessageBody AccountDeleted) \<and>
     users (snd (hono_route_removeAccount d k h)) = deleteOne (\<lambda>u. u_id u = oid) (users d) \<and>
     users (snd (koa_route_removeAccount d k h)) = deleteOne (\<lambda>u. u_id u = oid) (users d) \<and>
     (distinct (map u_id (users d)) \<longrightarrow>
        oid \<notin> u_id ` set (deleteOne (\<lambda>u. u_id u = oid) (users d))) \<and>
     versions (snd (hono_route_removeAccount d k h)) = versions d \<and>
     fs_files (snd (hono_route_removeAccount d k h)) = fs_files d \<and>
     versions (snd (koa_route_removeAccount d k h)) = versions d \<and>
     fs_files (snd (koa_route_removeAccount d k h)) = fs_files d \<and>
     packages (snd (koa_route_removeAccount d k h)) =
       filter (\<lambda>p. p_owner p \<noteq> Oid oid) (packages d) \<and>
     (\<forall>p\<in>set (searchPackages matches (snd (koa_route_removeAccount d k h)) q).
        p_owner p \<noteq> Oid oid) \<and>
     ((\<forall>p\<in>set (packages d). p_name p = n \<longrightarrow> p_owner p = Oid oid) \<longrightarrow>
        fst (getLatestVersion (snd (koa_route_removeAccount d k h)) n) =
          Resp 404 (ErrorBody PackageNotFound) \<and>
        fst (koa_download (snd (koa_route_removeAccount d k h)) n v) =
          Resp 404 (ErrorBody PackageNotFound))"
proof -
  note H = hono_removeAccount_eval [OF assms]
  note K = koa_removeAccount_eval [OF assms]
  have u: "distinct (map u_id (users d)) \<longrightarrow>
        oid \<notin> u_id ` set (deleteOne (\<lambda>u. u_id u = oid) (users d))"
    using deleteOne_distinct [of u_id "users d" oid] by blast
  have p: "(\<forall>p\<in>set (packages d). p_name p = n \<longrightarrow> p_owner p = Oid oid) \<longrightarrow>
        fst (getLatestVersion (snd (koa_route_removeAccount d k h)) n) =
          Resp 404 (ErrorBody PackageNotFound) \<and>
        fst (koa_download (snd (koa_route_removeAccount d k h)) n v) =
          Resp 404 (ErrorBody PackageNotFound)"
  proof
    assume a: "\<forall>p\<in>set (packages d). p_name p = n \<longrightarrow> p_owner p = Oid oid"
    have "List.find (\<lambda>p. p_name p = n)
            (packages (snd (koa_route_removeAccount d k h))) = None"
      using find_deleteMany_None [OF a] by (simp add: K)
    then show "fst (getLatestVersion (snd (koa_route_removeAccount d k h)) n) =
          Resp 404 (ErrorBody PackageNotFound) \<and>
        fst (koa_download (snd (koa_route_removeAccount d k h)) n v) =
          Resp 404 (ErrorBody PackageNotFound)"
      by (simp add: getLatestVersion_def koa_download_def)
  qed
  have rest: "fst (hono_route_removeAccount d k h) = Resp 200 (MessageBody UserDeleted)"
    "fst (koa_route_removeAccount d k h) = Resp 200 (MessageBody AccountDeleted)"
    "users (snd (hono_route_removeAccount d k h)) = deleteOne (\<lambda>u. u_id u = oid) (users d)"
    "users (snd (koa_route_removeAccount d k h)) = deleteOne (\<lambda>u. u_id u = oid) (users d)"
    "versions (snd (hono_route_removeAccount d k h)) = versions d"
    "fs_files (snd (hono_route_removeAccount d k h)) = fs_files d"
    "versions (snd (koa_route_removeAccount d k h)) = versions d"
    "fs_files (snd (koa_route_removeAccount d k h)) = fs_files d"
    "packages (snd (koa_route_removeAccount d k h)) =
       filter (\<lambda>p. p_owner p \<noteq> Oid oid) (packages d)"
    by (simp_all add: H K deleteMany_def)
  have sr: "\<forall>p\<in>set (searchPackages matches (snd (koa_route_removeAccount d k h)) q).
        p_owner p \<noteq> Oid oid"
    by (simp add: K searchPackages_def deleteMany_def)
  from rest u p sr show ?thesis by blast
qed

theorem removeAccount_deletes_user_only_witness:
  "users (snd (koa_route_removeAccount hono_db1 (Some ''key-a'') (Some alice_id))) = [bob] \<and>
   users (snd (hono_route_removeAccount hono_db1 (Some ''key-a'') (Some alice_id))) = [bob] \<and>
   alice_id \<notin> u_id ` set [bob] \<and>
   versions (snd (koa_route_removeAccount hono_db1 (Some ''key-a'') (Some alice_id))) =
     [leftpad_v1] \<and>
   fs_files (snd (koa_route_removeAccount hono_db1 (Some ''key-a'') (Some alice_id))) =
     [leftpad_blob1] \<and>
   packages (snd (koa_route_removeAccount hono_db1 (Some ''key-a'') (Some alice_id))) = [] \<and>
   searchPackages (\<lambda>q n. True)
     (snd (koa_route_removeAccount hono_db1 (Some ''key-a'') (Some alice_id))) [] = [] \<and>
   fst (getLatestVersion
         (snd (koa_route_removeAccount hono_db1 (Some ''key-a'') (Some alice_id))) ''leftpad'') =
     Resp 404 (ErrorBody PackageNotFound) \<and>
   fst (koa_download
         (snd (koa_route_removeAccount hono_db1 (Some ''key-a'') (Some alice_id)))
         ''leftpad'' ''1.0.0'') =
     Resp 404 (ErrorBody PackageNotFound)"
proof -
  have d: "distinct (map u_id (users hono_db1))"
    by (simp add: hono_db1_eq alice_def bob_def alice_id_def bob_id_def)
  have del: "deleteOne (\<lambda>u. u_id u = alice_id) (users hono_db1) = [bob]"
    by (simp add: hono_db1_eq alice_def)
  have own: "\<forall>p\<in>set (packages hono_db1). p_name p = ''leftpad'' \<longrightarrow> p_owner p = Oid alice_id"
    by (simp add: hono_db1_eq leftpad_hono_def)
  have pk: "filter (\<lambda>p. p_owner p \<noteq> Oid alice_id) (packages hono_db1) = []"
    by (simp add: hono_db1_eq leftpad_hono_def)
  have vs: "versions hono_db1 = [leftpad_v1]" "fs_files hono_db1 = [leftpad_blob1]"
    by (simp_all add: hono_db1_eq)
  note t = removeAccount_deletes_user_only [OF alice_passes_hono_db1 alice_oid,
      of "\<lambda>q n. True" "[]" "''leftpad''" "''1.0.0''"]
  from t pk have e: "packages (snd (koa_route_removeAccount hono_db1 (Some ''key-a'')
      (Some alice_id))) = []" by simp
  then have s: "searchPackages (\<lambda>q n. True)
     (snd (koa_route_removeAccount hono_db1 (Some ''key-a'') (Some alice_id))) [] = []"
    by (simp add: searchPackages_def)
  from t d own s show ?thesis unfolding del pk vs by blast
qed

text \<open>Claim C4 as stated fails: alice owns leftpad; after her account is removed, through
  either router, the version document of leftpad and its blob are still in the store (and
  through the Hono router the package is still there and can be downloaded).\<close>

theorem removeAccount_cascade_counterexample:
  "fst (koa_route_removeAccount hono_db1 (Some ''key-a'') (Some alice_id)) =
     Resp 200 (MessageBody AccountDeleted) \<and>
   p_owner leftpad_hono = Oid alice_id \<and> packages hono_db1 = [leftpad_hono] \<and>
   versions (snd (koa_route_removeAccount hono_db1 (Some ''key-a'') (Some alice_id))) =
     [leftpad_v1] \<and>
   fs_files (snd (koa_route_removeAccount hono_db1 (Some ''key-a'') (Some alice_id))) =
     [leftpad_blob1] \<and>
   fst (hono_route_removeAccount hono_db1 (Some ''key-a'') (Some alice_id)) =
     Resp 200 (MessageBody UserDeleted) \<and>
   versions (snd (hono_route_removeAccount hono_db1 (Some ''key-a'') (Some alice_id))) =
     [leftpad_v1] \<and>
   fs_files (snd (hono_route_removeAccount hono_db1 (Some ''key-a'') (Some alice_id))) =
     [leftpad_blob1] \<and>
   packages (snd (hono_route_removeAccount hono_db1 (Some ''key-a'') (Some alice_id))) =
     [leftpad_hono] \<and>
   fst (hono_download
         (snd (hono_route_removeAccount hono_db1 (Some ''key-a'') (Some alice_id)))
         ''leftpad'' ''1.0.0'') =
     Resp 200 (BufferBody ''leftpad.tgz'' payload)"
  by code_simp

section \<open>Ownership\<close>

lemma find_snoc:
  "List.find P (xs @ [x]) =
     (case List.find P xs of Some y \<Rightarrow> Some y | None \<Rightarrow> if P x then Some x else None)"
  by (induction xs) auto

lemma koa_publish_string_owner:
  assumes "List.find (\<lambda>p. p_name p = pn) (packages d) = Some pkg" and "p_owner pkg = Str s"
  shows "koa_publish e d u pn ver des (OneFile fp buf) = (Resp 500 (ExnBody TypeError), d)"
  using assms by (simp add: koa_publish_def koa_resolve_package_def)

lemma koa_deletePackage_objectid_owner:
  assumes "List.find (\<lambda>p. p_name p = pn) (packages d) = Some pkg" and "p_owner pkg = Oid a"
  shows "koa_deletePackage d u pn = (Resp 403 (ErrorBody NoPermissionToDelete), d)"
  using assms by (simp add: koa_deletePackage_def strict_neq_def)

lemma koa_resolve_package_creates_string_owner:
  assumes "List.find (\<lambda>p. p_name p = pn) (packages d) = None"
    and "koa_resolve_package e d u pn des = Inr (pk, d')"
  shows "\<exists>pkg. packages d' = packages d @ [pkg] \<and> p_owner pkg = Str u \<and> p_name pkg = pn"
  using assms unfolding koa_resolve_package_def
  by (auto split: sum.splits simp: insertOne_Inr)

text \<open>Claim C1 fails on the Koa controller. The middleware hands on the header string, so
  \<open>publish\<close> stores a string as owner and calls \<open>equals\<close> on it the next time (a
  TypeError, answered 500, whoever calls), and \<open>deletePackage\<close> compares the stored owner
  with that string by \<open>!==\<close>, which is true of every ObjectId (403, also for the owner).\<close>

theorem koa_owner_comparison_fails:
  assumes "List.find (\<lambda>p. p_name p = pn) (packages d) = Some pkg"
  shows "(\<forall>s. p_owner pkg = Str s \<longrightarrow>
            koa_publish e d u pn ver des (OneFile fp buf) = (Resp 500 (ExnBody TypeError), d)) \<and>
         (\<forall>a. p_owner pkg = Oid a \<longrightarrow>
            koa_deletePackage d u pn = (Resp 403 (ErrorBody NoPermissionToDelete), d))"
  using koa_publish_string_owner [OF assms] koa_deletePackage_objectid_owner [OF assms]
  by blast

lemma alice_passes_koa_db1:
  "authenticate koa_db1 (Some ''key-a'') (Some alice_id) = Pass alice_id"
  by code_simp

theorem koa_owner_comparison_fails_witness:
  "p_owner leftpad_hono = Oid alice_id \<and>
   koa_route_deletePackage hono_db1 (Some ''key-a'') (Some alice_id) ''leftpad'' =
     (Resp 403 (ErrorBody NoPermissionToDelete), hono_db1) \<and>
   p_owner leftpad_koa = Str alice_id \<and>
   koa_route_publish env2 koa_db1 (Some ''key-a'') (Some alice_id) ''leftpad'' ''2.0.0''
       ''pads more'' (OneFile ''/tmp/upload/leftpad2.tgz'' payload) =
     (Resp 500 (ExnBody TypeError), koa_db1)"
proof -
  have a: "List.find (\<lambda>p. p_name p = ''leftpad'') (packages hono_db1) = Some leftpad_hono"
    by (simp add: hono_db1_eq leftpad_hono_def)
  have b: "List.find (\<lambda>p. p_name p = ''leftpad'') (packages koa_db1) = Some leftpad_koa"
    by (simp add: koa_db1_eq leftpad_koa_def)
  have oa: "p_owner leftpad_hono = Oid alice_id" by (simp add: leftpad_hono_def)
  have ob: "p_owner leftpad_koa = Str alice_id" by (simp add: leftpad_koa_def)
  from koa_owner_comparison_fails [OF a, of env2 alice_id "''2.0.0''" "''pads more''"
      "''/tmp/upload/leftpad2.tgz''" payload] oa
  have 1: "koa_deletePackage hono_db1 alice_id ''leftpad'' =
      (Resp 403 (ErrorBody NoPermissionToDelete), hono_db1)"
    by blast
  from koa_owner_comparison_fails [OF b, of env2 alice_id "''2.0.0''" "''pads more''"
      "''/tmp/upload/leftpad2.tgz''" payload] ob
  have 2: "koa_publish env2 koa_db1 alice_id ''leftpad'' ''2.0.0'' ''pads more''
      (OneFile ''/tmp/upload/leftpad2.tgz'' payload) = (Resp 500 (ExnBody TypeError), koa_db1)"
    by blast
  from 1 2 oa ob alice_passes_koa_db1 alice_passes_hono_db1 show ?thesis
    by (simp add: koa_route_deletePackage_def koa_route_publish_def)
qed

text \<open>The Hono controller on packages it created.\<close>

lemma hono_not_owner_forbidden:
  assumes "List.find (\<lambda>p. p_name p = pn) (packages d) = Some pkg" and "p_owner pkg = Oid a"
    and "authenticate d k h = Pass uid" and "newObjectId uid = Inr b" and "b \<noteq> a"
    and "pn \<noteq> []" and "ver \<noteq> []" and "des \<noteq> []"
  shows "hono_route_publish e d k h (Some pn) (Some ver) (Some des) (FileEntry fn buf) =
           (Resp 403 (ErrorBody NoPermissionToPublish), d)"
    and "hono_route_deletePackage d k h pn = (Resp 403 (ErrorBody NoPermissionToDelete), d)"
proof -
  from authenticate_Pass [OF assms(3)] have h: "h = Some uid" "uid \<noteq> []" by auto
  show "hono_route_publish e d k h (Some pn) (Some ver) (Some des) (FileEntry fn buf) =
           (Resp 403 (ErrorBody NoPermissionToPublish), d)"
    using assms h
    by (simp add: hono_route_publish_def hono_publish_valid hono_resolve_package_def)
  show "hono_route_deletePackage d k h pn = (Resp 403 (ErrorBody NoPermissionToDelete), d)"
    using assms h by (simp add: hono_route_deletePackage_def hono_deletePackage_def)
qed

lemma hono_owner_deletes:
  assumes "List.find (\<lambda>p. p_name p = pn) (packages d) = Some pkg" and "p_owner pkg = Oid a"
    and "authenticate d k h = Pass uid" and "newObjectId uid = Inr a"
  shows "hono_route_deletePackage d k h pn =
     (Resp 200 (MessageBody PackageDeleted),
      d\<lparr>packages := deleteOne (\<lambda>p. p_id p = p_id pkg) (packages d)\<rparr>)"
proof -
  from authenticate_Pass [OF assms(3)] have h: "h = Some uid" "uid \<noteq> []" by auto
  show ?thesis using assms h by (simp add: hono_route_deletePackage_def hono_deletePackage_def)
qed

lemma hono_owner_publishes:
  assumes "List.find (\<lambda>p. p_name p = pn) (packages d) = Some pkg" and "p_owner pkg = Oid a"
    and "authenticate d k h = Pass uid" and "newObjectId uid = Inr a"
    and "pn \<noteq> []" and "ver \<noteq> []" and "des \<noteq> []"
    and "List.find (\<lambda>v. v_package v = p_id pkg \<and> v_version v = ver) (versions d) = None"
    and "newFileId e \<notin> f_id ` set (fs_files d)" and "newVersionId e \<notin> v_id ` set (versions d)"
  shows "hono_route_publish e d k h (Some pn) (Some ver) (Some des) (FileEntry fn buf) =
     (Resp 200 (PublishedBody (newVersionId e)),
      d\<lparr>fs_files := fs_files d @
           [\<lparr>f_id = newFileId e, f_filename = fn, f_metadata = (pn, ver), f_data = buf\<rparr>],
        versions := versions d @
           [\<lparr>v_id = newVersionId e, v_package = p_id pkg, v_version = ver,
             v_description = des, v_sha256 = None, v_fileSize = length buf,
             v_filePath = newFileId e, v_filename = fn, v_publishedBy = Oid a,
             v_publishedAt = publishedAtNow e, v_downloads = None\<rparr>]\<rparr>)"
proof -
  from authenticate_Pass [OF assms(3)] have h: "h = Some uid" "uid \<noteq> []" by auto
  have r: "hono_resolve_package e d a pn des = Inr (p_id pkg, d)"
    using assms(1,2) by (simp add: hono_resolve_package_def)
  have s: "saveFileToGridFS e (fs_files d) buf fn (pn, ver) =
     Inr (newFileId e, fs_files d @
           [\<lparr>f_id = newFileId e, f_filename = fn, f_metadata = (pn, ver), f_data = buf\<rparr>])"
    using assms(9) by (simp add: saveFileToGridFS_Inr)
  show ?thesis
    using assms(3,4,5,6,7,8,10) h r s
    by (simp add: hono_route_publish_def hono_publish_valid hono_store_version_def
        insertOne_def)
qed

lemma hono_version_exists:
  assumes "List.find (\<lambda>p. p_name p = pn) (packages d) = Some pkg" and "p_owner pkg = Oid a"
    and "authenticate d k h = Pass uid" and "newObjectId uid = Inr a"
    and "pn \<noteq> []" and "ver \<noteq> []" and "des \<noteq> []"
    and "List.find (\<lambda>v. v_package v = p_id pkg \<and> v_version v = ver) (versions d) = Some v"
  shows "hono_route_publish e d k h (Some pn) (Some ver) (Some des) (FileEntry fn buf) =
     (Resp 400 (ErrorBody VersionExists), d)"
proof -
  from authenticate_Pass [OF assms(3)] have h: "h = Some uid" "uid \<noteq> []" by auto
  have r: "hono_resolve_package e d a pn des = Inr (p_id pkg, d)"
    using assms(1,2) by (simp add: hono_resolve_package_def)
  show ?thesis
    using assms(3,4,5,6,7,8) h r
    by (simp add: hono_route_publish_def hono_publish_valid hono_store_version_def)
qed

lemma koa_version_exists:
  assumes "List.find (\<lambda>p. p_name p = pn) (packages d) = Some pkg" and "p_owner pkg = Oid a"
    and "authenticate d k h = Pass uid" and "newObjectId uid = Inr a"
    and "List.find (\<lambda>v. v_package v = p_id pkg \<and> v_version v = ver) (versions d) = Some v"
  shows "koa_route_publish e d k h pn ver des (OneFile fp buf) =
     (Resp 400 (ErrorBody VersionExists), d)"
proof -
  have l: "toLowerCase uid = a" using assms(4) by (simp add: newObjectId_def split: if_splits)
  have r: "koa_resolve_package e d uid pn des = Inr (p_id pkg, d)"
    using assms(1,2) l by (simp add: koa_resolve_package_def)
  show ?thesis
    using assms(3,5) r by (simp add: koa_route_publish_def koa_publish_def koa_store_version_def)
qed

text \<open>Claim C2 fails on the Koa controller, from the same defect: once a publish has
  created a package, every later publish to that name is answered 500 (TypeError) before the
  version check is reached, also the one that repeats the version.\<close>

theorem koa_republish_type_error:
  assumes "List.find (\<lambda>p. p_name p = pn) (packages d) = None"
    and "koa_publish e d u pn ver des (OneFile fp buf) = (Resp 200 b, d')"
  shows "koa_publish e' d' u' pn ver des' (OneFile fp' buf') = (Resp 500 (ExnBody TypeError), d')"
proof -
  from assms(2) obtain pk d1 where r: "koa_resolve_package e d u pn des = Inr (pk, d1)"
    and s: "koa_store_version e d1 u pk pn ver des fp buf = (Resp 200 b, d')"
    by (auto simp: koa_publish_def split: sum.splits dest: koa_resolve_package_Inl)
  from koa_resolve_package_creates_string_owner [OF assms(1) r] obtain pkg where
    p: "packages d1 = packages d @ [pkg]" "p_owner pkg = Str u" "p_name pkg = pn" by blast
  from koa_store_version_effect [OF s] have "packages d' = packages d1" by simp
  with p assms(1) have "List.find (\<lambda>p. p_name p = pn) (packages d') = Some pkg"
    by (simp add: find_snoc)
  from koa_publish_string_owner [OF this p(2)] show ?thesis .
qed

lemma koa_first_publish_eval:
  "koa_publish env1 db0 alice_id ''leftpad'' ''1.0.0'' ''pads strings''
     (OneFile ''/tmp/upload/leftpad.tgz'' payload) =
   (Resp 200 (PublishedBody ''333333333333333333333333''), koa_db1)"
  by code_simp

theorem koa_republish_type_error_witness:
  "koa_route_publish env2 koa_db1 (Some ''key-a'') (Some alice_id) ''leftpad'' ''1.0.0''
       ''pads strings'' (OneFile ''/tmp/upload/leftpad.tgz'' payload) =
     (Resp 500 (ExnBody TypeError), koa_db1) \<and>
   List.find (\<lambda>v. v_version v = ''1.0.0'') (versions koa_db1) = Some leftpad_v1_koa"
proof -
  have a: "List.find (\<lambda>p. p_name p = ''leftpad'') (packages db0) = None"
    by (simp add: db0_def)
  have v: "List.find (\<lambda>v. v_version v = ''1.0.0'') (versions koa_db1) = Some leftpad_v1_koa"
    by (simp add: koa_db1_eq leftpad_v1_koa_def)
  from koa_republish_type_error [OF a koa_first_publish_eval, of env2 alice_id
      "''pads strings''" "''/tmp/upload/leftpad.tgz''" payload]
  have "koa_publish env2 koa_db1 alice_id ''leftpad'' ''1.0.0'' ''pads strings''
      (OneFile ''/tmp/upload/leftpad.tgz'' payload) = (Resp 500 (ExnBody TypeError), koa_db1)" .
  with alice_passes_koa_db1 v show ?thesis by (simp add: koa_route_publish_def)
qed

section \<open>The content digest\<close>

lemma hono_store_version_200:
  assumes "hono_store_version e d u pk pn ver des fn buf = (r, d')" and "status r = 200"
  shows "d' = d\<lparr>fs_files := fs_files d @
           [\<lparr>f_id = newFileId e, f_filename = fn, f_metadata = (pn, ver), f_data = buf\<rparr>],
        versions := versions d @
           [\<lparr>v_id = newVersionId e, v_package = pk, v_version = ver,
             v_description = des, v_sha256 = None, v_fileSize = length buf,
             v_filePath = newFileId e, v_filename = fn, v_publishedBy = Oid u,
             v_publishedAt = publishedAtNow e, v_downloads = None\<rparr>]\<rparr> \<and>
     List.find (\<lambda>v. v_package v = pk \<and> v_version v = ver) (versions d) = None \<and>
     newFileId e \<notin> f_id ` set (fs_files d)"
  using assms unfolding hono_store_version_def
  by (auto split: option.splits sum.splits prod.splits
      simp: saveFileToGridFS_Inr insertOne_Inr)

lemma koa_store_version_200:
  assumes "koa_store_version e d u pk pn ver des fp buf = (r, d')" and "status r = 200"
  shows "d' = d\<lparr>fs_files := fs_files d @
           [\<lparr>f_id = newFileId e, f_filename = basename fp, f_metadata = (pn, ver),
             f_data = buf\<rparr>],
        versions := versions d @
           [\<lparr>v_id = newVersionId e, v_package = pk, v_version = ver,
             v_description = des, v_sha256 = Some (sha256hex e buf), v_fileSize = length buf,
             v_filePath = newFileId e, v_filename = basename fp, v_publishedBy = Str u,
             v_publishedAt = publishedAtNow e, v_downloads = Some 0\<rparr>]\<rparr> \<and>
     List.find (\<lambda>v. v_package v = pk \<and> v_version v = ver) (versions d) = None \<and>
     newFileId e \<notin> f_id ` set (fs_files d)"
  using assms unfolding koa_store_version_def Let_def
  by (auto split: option.splits sum.splits prod.splits
      simp: saveFileToGridFS_Inr insertOne_Inr)

lemma hono_publish_200:
  assumes "hono_publish e d h pn ver des ff = (r, d')" and "status r = 200"
  obtains s u n v ds fn buf pk d1 where "h = Some s" "newObjectId s = Inr u"
    "pn = Some n" "ver = Some v" "des = Some ds" "ff = FileEntry fn buf"
    "hono_resolve_package e d u n ds = Inr (pk, d1)"
    "hono_store_version e d1 u pk n v ds fn buf = (r, d')"
proof (cases "hono_publish_accepts h pn ver des ff")
  case False
  from hono_publish_rejects [OF False, of e d] assms show ?thesis by auto
next
  case True
  then obtain s u n v ds fn buf where v: "h = Some s" "s \<noteq> []" "newObjectId s = Inr u"
    "pn = Some n" "n \<noteq> []" "ver = Some v" "v \<noteq> []" "des = Some ds" "ds \<noteq> []"
    "ff = FileEntry fn buf"
    by (rule hono_publish_accepts_D)
  have eq: "(case hono_resolve_package e d u n ds of
        Inl r \<Rightarrow> r
      | Inr (pk, d1) \<Rightarrow> hono_store_version e d1 u pk n v ds fn buf) = (r, d')"
    using assms v by (simp add: hono_publish_valid)
  show ?thesis
  proof (cases "hono_resolve_package e d u n ds")
    case (Inl a)
    with eq have a: "hono_resolve_package e d u n ds = Inl (r, d')" by simp
    from hono_resolve_package_Inl [OF a] assms(2) show ?thesis by simp
  next
    case (Inr b)
    obtain pk d1 where b: "b = (pk, d1)" by (cases b)
    with Inr eq have st: "hono_store_version e d1 u pk n v ds fn buf = (r, d')" by simp
    from Inr b have rs: "hono_resolve_package e d u n ds = Inr (pk, d1)" by simp
    from that [OF v(1) v(3) v(4) v(6) v(8) v(10) rs st] show ?thesis .
  qed
qed

text \<open>Claim C3 fails on the Hono controller: the version document a successful publish
  stores has no digest.\<close>

theorem hono_publish_records_no_hash:
  assumes "hono_publish e d h pn ver des ff = (r, d')" and "status r = 200"
  shows "\<exists>v. versions d' = versions d @ [v] \<and> v_sha256 v = None"
proof -
  from assms obtain s u n v ds fn buf pk d1 where
    rs: "hono_resolve_package e d u n ds = Inr (pk, d1)"
    and st: "hono_store_version e d1 u pk n v ds fn buf = (r, d')"
    by (rule hono_publish_200)
  from hono_resolve_package_Inr [OF rs] have "versions d1 = versions d" by simp
  with hono_store_version_200 [OF st assms(2)] show ?thesis by simp
qed

lemma hono_first_publish_ctrl_eval:
  "hono_publish env1 db0 (Some alice_id) (Some ''leftpad'') (Some ''1.0.0'')
     (Some ''pads strings'') (FileEntry ''leftpad.tgz'' payload) =
   (Resp 200 (PublishedBody ''333333333333333333333333''), hono_db1)"
  by code_simp

theorem hono_publish_records_no_hash_witness:
  "hono_route_publish env1 db0 (Some ''key-a'') (Some alice_id) (Some ''leftpad'')
       (Some ''1.0.0'') (Some ''pads strings'') (FileEntry ''leftpad.tgz'' payload) =
     (Resp 200 (PublishedBody ''333333333333333333333333''), hono_db1) \<and>
   map v_sha256 (versions hono_db1) = [None] \<and>
   map v_sha256 (versions koa_db1) = [Some (sha256hex env1 payload)]"
proof -
  from hono_publish_records_no_hash [OF hono_first_publish_ctrl_eval]
  obtain v where "versions hono_db1 = versions db0 @ [v]" "v_sha256 v = None" by auto
  then have "map v_sha256 (versions hono_db1) = [None]" by (simp add: db0_def)
  moreover have "map v_sha256 (versions koa_db1) = [Some (sha256hex env1 payload)]"
    by (simp add: koa_db1_eq leftpad_v1_koa_def env1_def) code_simp
  ultimately show ?thesis using hono_first_publish_eval by simp
qed

text \<open>The Koa controller records the digest, and a download just after the publish returns
  the published bytes.\<close>

lemma koa_publish_200:
  assumes "koa_publish e d u pn ver des f = (r, d')" and "status r = 200"
  obtains fp buf pk d1 where "f = OneFile fp buf"
    "koa_resolve_package e d u pn des = Inr (pk, d1)"
    "koa_store_version e d1 u pk pn ver des fp buf = (r, d')"
proof (cases f)
  case NoFile
  with assms show ?thesis by (auto simp: koa_publish_def)
next
  case FileArray
  with assms show ?thesis by (auto simp: koa_publish_def)
next
  case (OneFile fp buf)
  with assms have eq: "(case koa_resolve_package e d u pn des of
        Inl r \<Rightarrow> r
      | Inr (pk, d1) \<Rightarrow> koa_store_version e d1 u pk pn ver des fp buf) = (r, d')"
    by (simp add: koa_publish_def)
  show ?thesis
  proof (cases "koa_resolve_package e d u pn des")
    case (Inl a)
    with eq have a: "koa_resolve_package e d u pn des = Inl (r, d')" by simp
    from koa_resolve_package_Inl [OF a] assms(2) show ?thesis by simp
  next
    case (Inr b)
    obtain pk d1 where b: "b = (pk, d1)" by (cases b)
    with Inr eq have st: "koa_store_version e d1 u pk pn ver des fp buf = (r, d')" by simp
    from Inr b have rs: "koa_resolve_package e d u pn des = Inr (pk, d1)" by simp
    from that [OF OneFile rs st] show ?thesis .
  qed
qed

lemma koa_resolve_package_found:
  assumes "koa_resolve_package e d u pn des = Inr (pk, d1)"
  shows "\<exists>pkg. List.find (\<lambda>p. p_name p = pn) (packages d1) = Some pkg \<and> p_id pkg = pk"
  using assms unfolding koa_resolve_package_def
  by (auto split: option.splits sum.splits if_splits simp: insertOne_Inr find_snoc)

lemma koa_publish_then_download:
  assumes "koa_publish e d u pn ver des (OneFile fp buf) = (r, d')" and "status r = 200"
    and "newObjectId (newFileId e) = Inr (newFileId e)"
  shows "\<exists>v. versions d' = versions d @ [v] \<and> v_sha256 v = Some (sha256hex e buf) \<and>
           koa_download d' pn ver = (Resp 200 (StreamBody (v_filename v) (Inr buf)), d')"
proof -
  from assms(1,2) obtain pk d1 where
    rs: "koa_resolve_package e d u pn des = Inr (pk, d1)"
    and st: "koa_store_version e d1 u pk pn ver des fp buf = (r, d')"
    by (rule koa_publish_200) auto
  from koa_resolve_package_Inr [OF rs] have same: "versions d1 = versions d" by simp
  from koa_resolve_package_found [OF rs] obtain pkg where
    pkg: "List.find (\<lambda>p. p_name p = pn) (packages d1) = Some pkg" "p_id pkg = pk" by blast
  let ?v = "\<lparr>v_id = newVersionId e, v_package = pk, v_version = ver,
             v_description = des, v_sha256 = Some (sha256hex e buf), v_fileSize = length buf,
             v_filePath = newFileId e, v_filename = basename fp, v_publishedBy = Str u,
             v_publishedAt = publishedAtNow e, v_downloads = Some 0\<rparr>"
  let ?f = "\<lparr>f_id = newFileId e, f_filename = basename fp, f_metadata = (pn, ver),
             f_data = buf\<rparr>"
  from koa_store_version_200 [OF st assms(2)] have
    d': "d' = d1\<lparr>fs_files := fs_files d1 @ [?f], versions := versions d1 @ [?v]\<rparr>"
    and nov: "List.find (\<lambda>v. v_package v = pk \<and> v_version v = ver) (versions d1) = None"
    and fresh: "newFileId e \<notin> f_id ` set (fs_files d1)" by auto
  have fp: "List.find (\<lambda>p. p_name p = pn) (packages d') = Some pkg"
    using pkg d' by simp
  have fv: "List.find (\<lambda>x. v_package x = p_id pkg \<and> v_version x = ver) (versions d') = Some ?v"
    using nov pkg(2) d' by (simp add: find_snoc)
  have "List.find (\<lambda>f. f_id f = newFileId e) (fs_files d1) = None"
    using fresh by (force simp: find_None_iff)
  then have ff: "List.find (\<lambda>f. f_id f = newFileId e) (fs_files d') = Some ?f"
    using d' by (simp add: find_snoc)
  have dl: "koa_download d' pn ver = (Resp 200 (StreamBody (basename fp) (Inr buf)), d')"
    using fp fv ff assms(3) by (simp add: koa_download_def openDownloadStream_def)
  have "versions d' = versions d @ [?v]" using d' same by simp
  with dl show ?thesis by simp
qed

section \<open>Register and login\<close>

text \<open>Claim C5 fails on the Hono controller: \<open>register\<close> never looks the name up, so a
  request with a taken name stores a second user document of that name and answers 201.\<close>

theorem hono_register_duplicate_username:
  assumes "u \<noteq> []" and "pw \<noteq> []" and "newUserId e \<notin> u_id ` set (users d)"
  shows "hono_register e d (Some u) (Some pw) =
     (Resp 201 (CredentialsBody (newUserId e) (generateApiKey (random e))),
      d\<lparr>users := users d @
         [\<lparr>u_id = newUserId e, u_username = u, u_password = hashPassword e pw,
           u_apiKey = generateApiKey (random e), u_createdAt = None,
           u_lastLogin = None\<rparr>]\<rparr>)"
  using assms by (simp add: hono_register_def insertOne_def Let_def)

theorem hono_register_duplicate_username_witness:
  "map u_username (users db0) = [''alice'', ''bob''] \<and>
   hono_register env1 db0 (Some ''alice'') (Some ''other'') =
     (Resp 201 (CredentialsBody ''cccccccccccccccccccccccc'' (generateApiKey (random env1))),
      db0\<lparr>users := [alice, bob, alice_again]\<rparr>) \<and>
   koa_register env1 db0 ''alice'' ''other'' = (Resp 400 (ErrorBody UsernameExists), db0)"
proof -
  have f: "newUserId env1 \<notin> u_id ` set (users db0)"
    by (simp add: env1_def db0_def alice_def bob_def alice_id_def bob_id_def)
  have k: "koa_register env1 db0 ''alice'' ''other'' = (Resp 400 (ErrorBody UsernameExists), db0)"
    by (simp add: koa_register_def db0_def alice_def)
  have n: "map u_username (users db0) = [''alice'', ''bob'']"
    by (simp add: db0_def alice_def bob_def)
  from hono_register_duplicate_username [OF _ _ f, of "''alice''" "''other''"] k n
  show ?thesis by (simp add: db0_def alice_again_def env1_def)
qed

text \<open>The Koa \<open>register\<close> rejects a taken name and stores a fresh one.\<close>

lemma koa_register_taken:
  "List.find (\<lambda>x. u_username x = u) (users d) = Some existing \<Longrightarrow>
     koa_register e d u pw = (Resp 400 (ErrorBody UsernameExists), d)"
  by (simp add: koa_register_def)

lemma koa_register_fresh:
  assumes "List.find (\<lambda>x. u_username x = u) (users d) = None"
    and "newUserId e \<notin> u_id ` set (users d)"
  shows "koa_register e d u pw =
     (Resp 201 (CredentialsBody (newUserId e) (generateApiKey (random e))),
      d\<lparr>users := users d @
         [\<lparr>u_id = newUserId e, u_username = u, u_password = hashPassword e pw,
           u_apiKey = generateApiKey (random e), u_createdAt = Some (createdAtNow e),
           u_lastLogin = Some (lastLoginNow e)\<rparr>]\<rparr>)"
  using assms by (simp add: koa_register_def insertOne_def Let_def)

lemma length_generateApiKey: "length (generateApiKey rnd) = 64"
  by (simp add: generateApiKey_def toHex_def randomBytes_def length_concat comp_def
      sum_list_triv)

text \<open>Claim C8 fails on the Hono controller: a successful \<open>login\<close> leaves the store as
  it was (no last login date is written), where the Koa one sets \<open>lastLogin\<close>.\<close>

theorem hono_login_keeps_lastLogin:
  assumes "List.find (\<lambda>x. u_username x = u) (users d) = Some user"
    and "verifyPassword e (u_password user) pw" and "u \<noteq> []" and "pw \<noteq> []"
  shows "hono_login e d (Some u) (Some pw) =
           (Resp 200 (CredentialsBody (u_id user) (u_apiKey user)), d) \<and>
         koa_login e d u pw =
           (Resp 200 (CredentialsBody (u_id user) (u_apiKey user)),
            d\<lparr>users := updateOne (\<lambda>x. u_id x = u_id user)
                           (\<lambda>x. x\<lparr>u_lastLogin := Some (lastLoginNow e)\<rparr>) (users d)\<rparr>)"
  using assms by (simp add: hono_login_def koa_login_def)

theorem hono_login_keeps_lastLogin_witness:
  "hono_login env1 db0 (Some ''alice'') (Some ''pw123'') =
     (Resp 200 (CredentialsBody alice_id ''key-a''), db0) \<and>
   map u_lastLogin (users db0) = [None, None] \<and>
   koa_login env1 db0 ''alice'' ''pw123'' =
     (Resp 200 (CredentialsBody alice_id ''key-a''), db0\<lparr>users := [alice_logged_in, bob]\<rparr>)"
proof -
  have f: "List.find (\<lambda>x. u_username x = ''alice'') (users db0) = Some alice"
    by (simp add: db0_def alice_def)
  have v: "verifyPassword env1 (u_password alice) ''pw123''"
    by (simp add: env1_def alice_def)
  have l: "map u_lastLogin (users db0) = [None, None]"
    by (simp add: db0_def alice_def bob_def)
  have u: "updateOne (\<lambda>x. u_id x = u_id alice)
             (\<lambda>x. x\<lparr>u_lastLogin := Some (lastLoginNow env1)\<rparr>) (users db0) =
           [alice_logged_in, bob]"
    by (simp add: db0_def alice_logged_in_def env1_def)
  have a: "u_id alice = alice_id" "u_apiKey alice = ''key-a''" by (simp_all add: alice_def)
  from hono_login_keeps_lastLogin [OF f v] l u a show ?thesis by simp
qed

text \<open>The other answers of \<open>login\<close>.\<close>

lemma login_unknown_user:
  "List.find (\<lambda>x. u_username x = u) (users d) = None \<Longrightarrow> u \<noteq> [] \<Longrightarrow> pw \<noteq> [] \<Longrightarrow>
     hono_login e d (Some u) (Some pw) = (Resp 404 (ErrorBody UserNotFound), d) \<and>
     koa_login e d u pw = (Resp 401 (ErrorBody UserNotFound), d)"
  by (simp add: hono_login_def koa_login_def)

lemma login_wrong_password:
  "List.find (\<lambda>x. u_username x = u) (users d) = Some user \<Longrightarrow>
   \<not> verifyPassword e (u_password user) pw \<Longrightarrow> u \<noteq> [] \<Longrightarrow> pw \<noteq> [] \<Longrightarrow>
     hono_login e d (Some u) (Some pw) = (Resp 401 (ErrorBody WrongPassword), d) \<and>
     koa_login e d u pw = (Resp 401 (ErrorBody WrongPassword), d)"
  by (simp add: hono_login_def koa_login_def)

lemma updateOne_apiKey:
  "map u_apiKey (updateOne P (\<lambda>x. x\<lparr>u_lastLogin := t\<rparr>) us) = map u_apiKey us"
  by (induction us) auto

section \<open>The scenario of section 8 of the specification\<close>

text \<open>After alice's publish of leftpad 1.0.0 through the Hono router: the latest version is
  1.0.0, the same publish again is answered 400 (version exists), bob's deletePackage 403,
  and a download without credentials returns the ten bytes.\<close>

lemma scenario_hono:
  "fst (getLatestVersion hono_db1 ''leftpad'') = Resp 200 (VersionBody leftpad_v1) \<and>
   hono_route_publish env2 hono_db1 (Some ''key-a'') (Some alice_id) (Some ''leftpad'')
       (Some ''1.0.0'') (Some ''pads strings'') (FileEntry ''leftpad.tgz'' payload) =
     (Resp 400 (ErrorBody VersionExists), hono_db1) \<and>
   hono_route_deletePackage hono_db1 (Some ''key-b'') (Some bob_id) ''leftpad'' =
     (Resp 403 (ErrorBody NoPermissionToDelete), hono_db1) \<and>
   hono_download hono_db1 ''leftpad'' ''1.0.0'' =
     (Resp 200 (BufferBody ''leftpad.tgz'' payload), hono_db1)"
  by code_simp

text \<open>The same through the Koa router: the second publish is answered 500.\<close>

lemma scenario_koa:
  "fst (getLatestVersion koa_db1 ''leftpad'') = Resp 200 (VersionBody leftpad_v1_koa) \<and>
   koa_route_publish env2 koa_db1 (Some ''key-a'') (Some alice_id) ''leftpad'' ''1.0.0''
       ''pads strings'' (OneFile ''/tmp/upload/leftpad.tgz'' payload) =
     (Resp 500 (ExnBody TypeError), koa_db1) \<and>
   koa_route_deletePackage koa_db1 (Some ''key-b'') (Some bob_id) ''leftpad'' =
     (Resp 403 (ErrorBody NoPermissionToDelete), koa_db1) \<and>
   koa_download koa_db1 ''leftpad'' ''1.0.0'' =
     (Resp 200 (StreamBody ''leftpad.tgz'' (Inr payload)), koa_db1)"
  by code_simp

end
